theory Spec2Isabelle
  imports Main
begin

section \<open>Python primitives used by the pipeline\<close>

text \<open>
  Strings are byte sequences in UTF-8: every operation the pipeline applies to a string
  (concatenation, emptiness test, splitting on the ASCII separator \<open>", "\<close>) gives the same
  result on the UTF-8 bytes as on Python's code points. The Japanese literals of the source
  are written out as their UTF-8 bytes.
\<close>

subsection \<open>Exceptions\<close>

datatype py_error = IndexError | ValueError

definition str_error :: "py_error \<Rightarrow> string" where
  "str_error e = (case e of IndexError \<Rightarrow> ''list index out of range''
                          | ValueError \<Rightarrow> ''empty separator'')"

definition bind_exc :: "py_error + 'a \<Rightarrow> ('a \<Rightarrow> py_error + 'b) \<Rightarrow> py_error + 'b" where
  "bind_exc m f = (case m of Inl e \<Rightarrow> Inl e | Inr x \<Rightarrow> f x)"

subsection \<open>Indexing a list: \<open>xs[i]\<close>\<close>

definition py_getitem :: "'a list \<Rightarrow> int \<Rightarrow> py_error + 'a" where
  "py_getitem xs i =
     (if 0 \<le> i \<and> i < int (length xs) then Inr (xs ! nat i)
      else if i < 0 \<and> - int (length xs) \<le> i then Inr (xs ! nat (int (length xs) + i))
      else Inl IndexError)"

subsection \<open>Decimal rendering of an integer: \<open>f"{n}"\<close>\<close>

definition digit_char :: "nat \<Rightarrow> char" where
  "digit_char d = char_of (48 + d)"

fun str_nat :: "nat \<Rightarrow> string" where
  "str_nat n = (if n < 10 then [digit_char n] else str_nat (n div 10) @ [digit_char (n mod 10)])"

declare str_nat.simps [simp del]

definition str_int :: "int \<Rightarrow> string" where
  "str_int i = (if i < 0 then ''-'' @ str_nat (nat (- i)) else str_nat (nat i))"

subsection \<open>\<open>str.split(sep)\<close>\<close>

text \<open>
  The scan goes left to right; \<open>piece\<close> is the part of the current field read so far.
  Python raises \<open>ValueError\<close> on an empty separator.
\<close>

function py_split_from :: "string \<Rightarrow> string \<Rightarrow> string \<Rightarrow> string list" where
  "py_split_from sep piece s =
     (if sep = [] \<or> s = [] then [piece]
      else if take (length sep) s = sep
        then piece # py_split_from sep [] (drop (length sep) s)
      else py_split_from sep (piece @ [hd s]) (tl s))"
  by pat_completeness auto
termination
  by (relation "measure (\<lambda>(sep, piece, s). length s)") auto

declare py_split_from.simps [simp del]

definition py_split :: "string \<Rightarrow> string \<Rightarrow> py_error + string list" where
  "py_split s sep = (if sep = [] then Inl ValueError else Inr (py_split_from sep [] s))"

text \<open>\<open>sep.join(pieces)\<close>, the inverse of splitting.\<close>

fun py_join :: "string \<Rightarrow> string list \<Rightarrow> string" where
  "py_join sep [] = []"
| "py_join sep [x] = x"
| "py_join sep (x # y # ys) = x @ sep @ py_join sep (y # ys)"

subsection \<open>\<open>text.strip() == ''\<close>\<close>

text \<open>
  \<open>str.strip()\<close> removes the characters for which \<open>str.isspace\<close> holds: U+0009..U+000D,
  U+001C..U+0020, U+0085, U+00A0, U+1680, U+2000..U+200A, U+2028, U+2029, U+202F, U+205F and
  U+3000. The result is empty exactly when the text consists of such characters only.
\<close>

definition space1 :: "char \<Rightarrow> bool" where
  "space1 c = (let n = (of_char c :: nat) in (9 \<le> n \<and> n \<le> 13) \<or> (28 \<le> n \<and> n \<le> 32))"

definition space2 :: "char \<Rightarrow> char \<Rightarrow> bool" where
  "space2 c d = (c = CHR 0xC2 \<and> (d = CHR 0x85 \<or> d = CHR 0xA0))"

definition space3 :: "char \<Rightarrow> char \<Rightarrow> char \<Rightarrow> bool" where
  "space3 c d e =
     (let n = (of_char e :: nat) in
        (c = CHR 0xE1 \<and> d = CHR 0x9A \<and> e = CHR 0x80)
      \<or> (c = CHR 0xE2 \<and> d = CHR 0x80 \<and> ((128 \<le> n \<and> n \<le> 138) \<or> n = 168 \<or> n = 169 \<or> n = 175))
      \<or> (c = CHR 0xE2 \<and> d = CHR 0x81 \<and> e = CHR 0x9F)
      \<or> (c = CHR 0xE3 \<and> d = CHR 0x80 \<and> e = CHR 0x80))"

fun strip_is_empty :: "string \<Rightarrow> bool" where
  "strip_is_empty [] = True"
| "strip_is_empty [c] = space1 c"
| "strip_is_empty [c, d] = (if space1 c then space1 d else space2 c d)"
| "strip_is_empty (c # d # e # s) =
     (if space1 c then strip_is_empty (d # e # s)
      else if space2 c d then strip_is_empty (e # s)
      else space3 c d e \<and> strip_is_empty s)"

section \<open>Data model\<close>

text \<open>The dictionary built by \<open>extract_submission_data\<close>, with its eleven keys.\<close>

record submission =
  timestamp :: string
  submitter :: string
  title :: string
  aff_tags :: "string list"
  neg_tags :: "string list"
  source_url :: string
  update_date :: string
  eng_source :: string
  quote :: string
  attachment :: string
  remark :: string

text \<open>The local dictionary \<open>formatted_content\<close> of \<open>add_to_docs\<close>.\<close>

record formatted_content =
  fc_title :: string
  fc_tags :: string
  fc_remark :: string
  fc_table_content :: string
  fc_attachment :: string

text \<open>The nested dictionary built by \<open>prepare_structured_data\<close>.\<close>

record bilingual =
  original :: string
  translated :: string

record entry_tags =
  affirmative :: "string list"
  negative :: "string list"

record entry_source =
  url :: string
  src_update_date :: string
  src_eng_source :: string

record entry_metadata =
  meta_attachment :: string
  meta_remark :: string
  processed_at :: string

record structured_entry =
  entry_id :: string
  entry_timestamp :: string
  entry_submitter :: string
  entry_title :: bilingual
  entry_quote :: bilingual
  tags :: entry_tags
  source :: entry_source
  metadata :: entry_metadata

subsection \<open>The outside world\<close>

text \<open>
  Everything the object does to the outside is recorded, in order, in a history of effects.
  \<open>Enter_process_submission\<close> is bookkeeping: it marks the entry into \<open>process_submission\<close>
  with its row number (or entry number, for the web service) and nothing reads it.
\<close>

datatype effect =
    Print string
  | LogInfo string
  | LogWarning string
  | LogError string
  | TranslateCall string string string
  | PostCall string string
  | NowCall
  | SheetCall string string
  | Enter_process_submission int

text \<open>
  The response of the translation service: the call raises (with the text of the exception),
  or returns a dictionary, of which the model keeps the value under \<open>'translations'\<close> if the
  key is there: a list whose items may or may not have a \<open>'translatedText'\<close>.
\<close>

datatype provider_result =
    ProviderRaises string
  | ProviderResult "string option list option"

datatype post_result = PostRaises string | PostStatus int

datatype fetch_result = FetchRaises string | FetchRows "string list list"

text \<open>
  The external services answer as they please: each is a function of the history so far and
  of the arguments of the call.
\<close>

record env =
  translate_execute :: "effect list \<Rightarrow> string \<Rightarrow> string \<Rightarrow> string \<Rightarrow> provider_result"
  requests_post :: "effect list \<Rightarrow> string \<Rightarrow> string \<Rightarrow> post_result"
  datetime_now_isoformat :: "effect list \<Rightarrow> string"
  get_all_values :: "effect list \<Rightarrow> string \<Rightarrow> string \<Rightarrow> fetch_result"

text \<open>The attributes of \<open>EvidenceCollectionSystem\<close> that the pipeline reads and writes.\<close>

record system =
  discord_webhook_url :: string
  last_processed_row :: int
  structured_data :: "structured_entry list"
  effects :: "effect list"

definition init_system :: "string \<Rightarrow> system" where
  "init_system webhook_url =
     \<lparr>discord_webhook_url = webhook_url, last_processed_row = 0,
      structured_data = [], effects = []\<rparr>"

definition emit :: "effect \<Rightarrow> system \<Rightarrow> system" where
  "emit e st = st\<lparr>effects := effects st @ [e]\<rparr>"

section \<open>process_submission.py\<close>

subsection \<open>\<open>extract_submission_data\<close>\<close>

text \<open>\<open>row_data[i].split(', ') if row_data[i] else []\<close>\<close>

definition parse_tags :: "string \<Rightarrow> py_error + string list" where
  "parse_tags field = (if field \<noteq> [] then py_split field '', '' else Inr [])"

text \<open>
  The body of the \<open>try\<close> block: \<open>Inl\<close> is an exception raised inside it, \<open>Inr\<close> the value
  returned together with what was reported. The block is the same in process_submission.py
  and in app.py but for the channel of the report: \<open>print\<close> in the first,
  \<open>logger.warning\<close> in the second.
\<close>

definition extract_try :: "(string \<Rightarrow> effect) \<Rightarrow> string list \<Rightarrow> py_error + (submission option \<times> effect list)" where
  "extract_try report row_data =
     (if length row_data < 11 then
        Inr (None, [report (''Insufficient data in row: '' @ str_int (int (length row_data)) @ '' columns'')])
      else
        bind_exc (py_getitem row_data 3) (\<lambda>f3.
        bind_exc (parse_tags f3) (\<lambda>aff.
        bind_exc (py_getitem row_data 4) (\<lambda>f4.
        bind_exc (parse_tags f4) (\<lambda>neg.
        bind_exc (py_getitem row_data 0) (\<lambda>f0.
        bind_exc (py_getitem row_data 1) (\<lambda>f1.
        bind_exc (py_getitem row_data 2) (\<lambda>f2.
        bind_exc (py_getitem row_data 5) (\<lambda>f5.
        bind_exc (py_getitem row_data 6) (\<lambda>f6.
        bind_exc (py_getitem row_data 7) (\<lambda>f7.
        bind_exc (py_getitem row_data 8) (\<lambda>f8.
        bind_exc (py_getitem row_data 9) (\<lambda>f9.
        bind_exc (py_getitem row_data 10) (\<lambda>f10.
          Inr (Some \<lparr>timestamp = f0, submitter = f1, title = f2,
                     aff_tags = aff, neg_tags = neg,
                     source_url = f5, update_date = f6, eng_source = f7,
                     quote = f8, attachment = f9, remark = f10\<rparr>, [])))))))))))))))"

definition extract_submission_data :: "string list \<Rightarrow> system \<Rightarrow> submission option \<times> system" where
  "extract_submission_data row_data st =
     (case extract_try Print row_data of
        Inl error \<Rightarrow> (None, emit (Print (''Error extracting submission data: '' @ str_error error)) st)
      | Inr (result, printed) \<Rightarrow> (result, st\<lparr>effects := effects st @ printed\<rparr>))"

subsection \<open>\<open>translate_text\<close>\<close>

text \<open>
  The body of the \<open>try\<close> block, given the response of the service: \<open>Inl\<close> is the text of an
  exception raised inside it (by the service, or \<open>KeyError\<close> when the first translation has
  no \<open>'translatedText'\<close>), \<open>Inr\<close> the value returned.
\<close>

definition translate_try :: "string \<Rightarrow> provider_result \<Rightarrow> string + string" where
  "translate_try text response =
     (case response of
        ProviderRaises msg \<Rightarrow> Inl msg
      | ProviderResult None \<Rightarrow> Inr text
      | ProviderResult (Some []) \<Rightarrow> Inr text
      | ProviderResult (Some (first # _)) \<Rightarrow>
          (case first of
             None \<Rightarrow> Inl ([CHR 0x27] @ ''translatedText'' @ [CHR 0x27])
           | Some translatedText \<Rightarrow> Inr translatedText))"

definition translate_text :: "env \<Rightarrow> string \<Rightarrow> string \<Rightarrow> string \<Rightarrow> system \<Rightarrow> string \<times> system" where
  "translate_text env text source_lang target_lang st =
     (if text = [] \<or> strip_is_empty text then (text, st)
      else
        let response = translate_execute env (effects st) source_lang target_lang text;
            st1 = emit (TranslateCall source_lang target_lang text) st
        in case translate_try text response of
             Inl error \<Rightarrow> (text, emit (Print (''Translation error: '' @ error)) st1)
           | Inr result \<Rightarrow> (result, st1))"

subsection \<open>\<open>add_to_docs\<close>\<close>

text \<open>\<open>data['aff_tags'] and data['aff_tags'][0]\<close>: the list is not empty and neither is its first tag.\<close>

definition tags_shown :: "string list \<Rightarrow> bool" where
  "tags_shown tag_list = (case tag_list of [] \<Rightarrow> False | first # _ \<Rightarrow> first \<noteq> [])"

definition jp_open :: string where
  "jp_open = [CHR 0xE3, CHR 0x80, CHR 0x90]"

definition jp_close :: string where
  "jp_close = [CHR 0xE3, CHR 0x80, CHR 0x91]"

definition jp_entry_number :: string where
  "jp_entry_number = [CHR 0xE8, CHR 0xB3, CHR 0x87, CHR 0xE6, CHR 0x96, CHR 0x99,
                      CHR 0xE7, CHR 0x95, CHR 0xAA, CHR 0xE5, CHR 0x8F, CHR 0xB7]"

definition jp_attachment :: string where
  "jp_attachment = [CHR 0xE6, CHR 0xB7, CHR 0xBB, CHR 0xE4, CHR 0xBB, CHR 0x98,
                    CHR 0xE3, CHR 0x83, CHR 0x95, CHR 0xE3, CHR 0x82, CHR 0xA1,
                    CHR 0xE3, CHR 0x82, CHR 0xA4, CHR 0xE3, CHR 0x83, CHR 0xAB,
                    CHR 0xEF, CHR 0xBC, CHR 0x9A]"

definition jp_none :: string where
  "jp_none = [CHR 0xE3, CHR 0x81, CHR 0xAA, CHR 0xE3, CHR 0x81, CHR 0x97]"

definition jp_remark_mark :: string where
  "jp_remark_mark = [CHR 0xE2, CHR 0x80, CHR 0xBB]"

definition jp_submitter :: string where
  "jp_submitter = [CHR 0xE6, CHR 0x8A, CHR 0x95, CHR 0xE7, CHR 0xA8, CHR 0xBF,
                   CHR 0xE8, CHR 0x80, CHR 0x85]"

definition jp_source :: string where
  "jp_source = [CHR 0xE5, CHR 0xBC, CHR 0x95, CHR 0xE7, CHR 0x94, CHR 0xA8,
                CHR 0xE5, CHR 0x85, CHR 0x83]"

text \<open>
  The formatting part of \<open>add_to_docs\<close>, from \<open>title_content\<close> to the dictionary
  \<open>formatted_content\<close>, as a function of the translated quote. Each \<open>for\<close> loop appends
  one tag per round.
\<close>

definition docs_formatted_content :: "int \<Rightarrow> submission \<Rightarrow> string \<Rightarrow> formatted_content" where
  "docs_formatted_content entry_number data translated_quote =
     (let original_quote = quote data;
          title_content = str_int entry_number @ ''. '' @ title data @ '' ('' @ submitter data @ '')'';
          tags_content = ''#'' @ submitter data;
          tags_content =
            (if tags_shown (aff_tags data)
             then foldl (\<lambda>acc tag. acc @ '' #'' @ tag) (tags_content @ '' [AFF]'') (aff_tags data)
             else tags_content);
          tags_content =
            (if tags_shown (neg_tags data)
             then foldl (\<lambda>acc tag. acc @ '' #'' @ tag) (tags_content @ '' [NEG]'') (neg_tags data)
             else tags_content);
          table_content =
            ''['' @ jp_entry_number @ '':'' @ str_int entry_number @ ''] '' @ update_date data
              @ '': '' @ eng_source data @ ''\<newline>''
            @ source_url data @ ''\<newline>\<newline>''
            @ jp_open @ ''Original (Japanese)'' @ jp_close @ ''\<newline>'' @ original_quote @ ''\<newline>\<newline>''
            @ jp_open @ ''English Translation'' @ jp_close @ ''\<newline>'' @ translated_quote
      in \<lparr>fc_title = title_content, fc_tags = tags_content, fc_remark = remark data,
          fc_table_content = table_content, fc_attachment = attachment data\<rparr>)"

text \<open>
  \<open>add_to_docs\<close> translates the quote, builds \<open>formatted_content\<close> and prints one line; the
  dictionary is not sent anywhere. Nothing in the \<open>try\<close> block raises, since
  \<open>translate_text\<close> catches its own exceptions.
\<close>

definition add_to_docs :: "env \<Rightarrow> int \<Rightarrow> submission \<Rightarrow> system \<Rightarrow> system" where
  "add_to_docs env entry_number data st =
     (let (translated_quote, st1) = translate_text env (quote data) ''ja'' ''en'' st;
          formatted_content = docs_formatted_content entry_number data translated_quote
      in emit (Print (''Content prepared for Google Docs: '' @ title data)) st1)"

text \<open>The value of the local variable \<open>formatted_content\<close> in that call.\<close>

definition add_to_docs_formatted_content :: "env \<Rightarrow> int \<Rightarrow> submission \<Rightarrow> system \<Rightarrow> formatted_content" where
  "add_to_docs_formatted_content env entry_number data st =
     docs_formatted_content entry_number data (fst (translate_text env (quote data) ''ja'' ''en'' st))"

subsection \<open>\<open>send_discord_notification\<close>\<close>

definition fence :: string where
  "fence = [CHR 0x60, CHR 0x60, CHR 0x60]"

text \<open>The formatting part, from \<open>tags_text\<close> to \<open>discord_payload['content']\<close>.\<close>

definition notification_tags_text :: "submission \<Rightarrow> string" where
  "notification_tags_text data =
     (let tags_text = [];
          tags_text =
            (if tags_shown (aff_tags data)
             then foldl (\<lambda>acc tag. acc @ ''#'' @ tag @ '' '') (tags_text @ ''[AFF]'') (aff_tags data)
             else tags_text);
          tags_text =
            (if tags_shown (aff_tags data) \<and> tags_shown (neg_tags data)
             then tags_text @ ''\<newline>'' else tags_text);
          tags_text =
            (if tags_shown (neg_tags data)
             then foldl (\<lambda>acc tag. acc @ ''#'' @ tag @ '' '') (tags_text @ ''[NEG]'') (neg_tags data)
             else tags_text)
      in tags_text)"

definition notification_content :: "int \<Rightarrow> submission \<Rightarrow> string \<Rightarrow> string" where
  "notification_content entry_number data translated_quote =
     (let original_quote = quote data;
          tags_text = notification_tags_text data;
          attachment_text = ''\<newline>'' @ jp_attachment @ ''\<newline>'';
          attachment_text =
            (if attachment data \<noteq> [] then attachment_text @ attachment data
             else attachment_text @ jp_none);
          remark_text =
            (if remark data \<noteq> [] then ''\<newline>'' @ jp_remark_mark @ remark data else []);
          message_content =
            ''\<newline>'' @ tags_text @ ''\<newline>\<newline>''
            @ fence @ original_quote @ fence @ ''\<newline>\<newline>''
            @ ''**English Translation:**\<newline>''
            @ fence @ translated_quote @ fence
            @ remark_text
            @ attachment_text @ ''\<newline>\<newline>''
            @ jp_open @ jp_submitter @ jp_close @ submitter data @ ''\<newline>''
            @ jp_open @ jp_source @ jp_close @ update_date data @ ''\<newline>''
            @ source_url data
      in str_int entry_number @ ''. '' @ title data @ '' ('' @ submitter data @ '')''
           @ ''\<newline>'' @ message_content)"

text \<open>
  The POST is recorded with its URL and the \<open>content\<close> of the payload (\<open>tts\<close> is always
  \<open>False\<close>). The only statement of the \<open>try\<close> block that can raise is \<open>requests.post\<close>.
\<close>

definition send_discord_notification :: "env \<Rightarrow> int \<Rightarrow> submission \<Rightarrow> system \<Rightarrow> system" where
  "send_discord_notification env entry_number data st =
     (let (translated_quote, st1) = translate_text env (quote data) ''ja'' ''en'' st;
          content = notification_content entry_number data translated_quote;
          response = requests_post env (effects st1) (discord_webhook_url st1) content;
          st2 = emit (PostCall (discord_webhook_url st1) content) st1
      in case response of
           PostRaises error \<Rightarrow> emit (Print (''Error sending Discord notification: '' @ error)) st2
         | PostStatus status_code \<Rightarrow>
             if status_code = 204
             then emit (Print (''Discord notification sent successfully for: '' @ title data)) st2
             else emit (Print (''Discord notification failed: '' @ str_int status_code)) st2)"

subsection \<open>\<open>prepare_structured_data\<close>\<close>

definition prepare_structured_data :: "env \<Rightarrow> submission \<Rightarrow> int \<Rightarrow> system \<Rightarrow> structured_entry \<times> system" where
  "prepare_structured_data env data row_number st =
     (let (translated_title, st1) = translate_text env (title data) ''ja'' ''en'' st;
          (translated_quote, st2) = translate_text env (quote data) ''ja'' ''en'' st1;
          now = datetime_now_isoformat env (effects st2);
          st3 = emit NowCall st2
      in (\<lparr>entry_id = ''entry_'' @ str_int row_number,
           entry_timestamp = timestamp data,
           entry_submitter = submitter data,
           entry_title = \<lparr>original = title data, translated = translated_title\<rparr>,
           entry_quote = \<lparr>original = quote data, translated = translated_quote\<rparr>,
           tags = \<lparr>affirmative = aff_tags data, negative = neg_tags data\<rparr>,
           source = \<lparr>url = source_url data, src_update_date = update_date data,
                     src_eng_source = eng_source data\<rparr>,
           metadata = \<lparr>meta_attachment = attachment data, meta_remark = remark data,
                       processed_at = now\<rparr>\<rparr>, st3))"

subsection \<open>\<open>process_submission\<close>\<close>

text \<open>
  The three steps catch their own exceptions or raise none, so the outer \<open>except\<close> has
  nothing to catch. \<open>if not submission_data\<close> holds for \<open>None\<close> only: the dictionary
  has eleven keys.
\<close>

definition process_submission :: "env \<Rightarrow> string list \<Rightarrow> int \<Rightarrow> system \<Rightarrow> system" where
  "process_submission env row_data row_number st =
     (let (submission_data, st1) =
            extract_submission_data row_data (emit (Enter_process_submission row_number) st)
      in case submission_data of
           None \<Rightarrow> st1
         | Some data \<Rightarrow>
             let st2 = add_to_docs env (row_number - 1) data st1;
                 st3 = send_discord_notification env (row_number - 1) data st2;
                 (structured_entry, st4) = prepare_structured_data env data row_number st3
             in st4\<lparr>structured_data := structured_data st4 @ [structured_entry]\<rparr>)"

subsection \<open>\<open>monitor_spreadsheet\<close>\<close>

text \<open>
  The \<open>for\<close> loop over \<open>range(max(2, last_processed_row + 1), current_row_count + 1)\<close>. An
  exception raised by \<open>all_rows[row_index - 1]\<close> leaves the loop with the state reached.
\<close>

fun process_rows :: "env \<Rightarrow> string list list \<Rightarrow> int list \<Rightarrow> system \<Rightarrow> py_error option \<times> system" where
  "process_rows env all_rows [] st = (None, st)"
| "process_rows env all_rows (row_index # later) st =
     (case py_getitem all_rows (row_index - 1) of
        Inl error \<Rightarrow> (Some error, st)
      | Inr row_data \<Rightarrow> process_rows env all_rows later (process_submission env row_data row_index st))"

definition monitor_spreadsheet :: "env \<Rightarrow> string \<Rightarrow> string \<Rightarrow> system \<Rightarrow> system" where
  "monitor_spreadsheet env spreadsheet_id sheet_name st =
     (let st1 = emit (SheetCall spreadsheet_id sheet_name) st in
      case get_all_values env (effects st) spreadsheet_id sheet_name of
        FetchRaises error \<Rightarrow> emit (Print (''Error monitoring spreadsheet: '' @ error)) st1
      | FetchRows all_rows \<Rightarrow>
          if length all_rows \<le> 1 then st1
          else
            let current_row_count = int (length all_rows) in
            if current_row_count > last_processed_row st1 then
              (case process_rows env all_rows
                      [max 2 (last_processed_row st1 + 1) .. current_row_count] st1 of
                 (Some error, st2) \<Rightarrow>
                   emit (Print (''Error monitoring spreadsheet: '' @ str_error error)) st2
               | (None, st2) \<Rightarrow> st2\<lparr>last_processed_row := current_row_count\<rparr>)
            else st1)"

section \<open>app.py\<close>

text \<open>
  The attributes of \<open>EvidenceCollectionService\<close> that \<open>process_submission\<close> reads and
  writes. The webhook URL comes from the environment and may be missing.
\<close>

record service =
  svc_discord_webhook_url :: "string option"
  svc_structured_data :: "structured_entry list"
  svc_effects :: "effect list"

definition init_service :: "string option \<Rightarrow> service" where
  "init_service webhook_url =
     \<lparr>svc_discord_webhook_url = webhook_url, svc_structured_data = [], svc_effects = []\<rparr>"

definition svc_emit :: "effect \<Rightarrow> service \<Rightarrow> service" where
  "svc_emit e sv = sv\<lparr>svc_effects := svc_effects sv @ [e]\<rparr>"

text \<open>The dictionary returned by \<open>process_submission\<close>.\<close>

datatype process_result =
    Processed int bool bool structured_entry
  | NotProcessed string

definition app_extract_submission_data :: "string list \<Rightarrow> service \<Rightarrow> submission option \<times> service" where
  "app_extract_submission_data row_data sv =
     (case extract_try LogWarning row_data of
        Inl error \<Rightarrow> (None, svc_emit (LogError (''Error extracting submission data: '' @ str_error error)) sv)
      | Inr (result, reported) \<Rightarrow> (result, sv\<lparr>svc_effects := svc_effects sv @ reported\<rparr>))"

definition app_translate_text :: "env \<Rightarrow> string \<Rightarrow> string \<Rightarrow> string \<Rightarrow> service \<Rightarrow> string \<times> service" where
  "app_translate_text env text source_lang target_lang sv =
     (if text = [] \<or> strip_is_empty text then (text, sv)
      else
        let response = translate_execute env (svc_effects sv) source_lang target_lang text;
            sv1 = svc_emit (TranslateCall source_lang target_lang text) sv
        in case translate_try text response of
             Inl error \<Rightarrow> (text, svc_emit (LogError (''Translation error: '' @ error)) sv1)
           | Inr result \<Rightarrow> (result, sv1))"

text \<open>
  \<open>add_to_docs\<close> of app.py builds the same strings as the one of process_submission.py
  (without collecting them in a dictionary), logs one line and returns \<open>True\<close>.
\<close>

definition app_add_to_docs :: "env \<Rightarrow> int \<Rightarrow> submission \<Rightarrow> service \<Rightarrow> bool \<times> service" where
  "app_add_to_docs env entry_number data sv =
     (let (translated_quote, sv1) = app_translate_text env (quote data) ''ja'' ''en'' sv;
          formatted = docs_formatted_content entry_number data translated_quote
      in (True, svc_emit (LogInfo (''Formatted content for Google Docs: '' @ title data)) sv1))"

definition app_send_discord_notification :: "env \<Rightarrow> int \<Rightarrow> submission \<Rightarrow> service \<Rightarrow> bool \<times> service" where
  "app_send_discord_notification env entry_number data sv =
     (case svc_discord_webhook_url sv of
        None \<Rightarrow> (False, svc_emit (LogWarning ''Discord webhook URL not configured'') sv)
      | Some webhook_url \<Rightarrow>
          if webhook_url = [] then (False, svc_emit (LogWarning ''Discord webhook URL not configured'') sv)
          else
            let (translated_quote, sv1) = app_translate_text env (quote data) ''ja'' ''en'' sv;
                content = notification_content entry_number data translated_quote;
                response = requests_post env (svc_effects sv1) webhook_url content;
                sv2 = svc_emit (PostCall webhook_url content) sv1
            in (case response of
                  PostRaises error \<Rightarrow>
                    (False, svc_emit (LogError (''Error sending Discord notification: '' @ error)) sv2)
                | PostStatus status_code \<Rightarrow>
                    (if status_code = 204
                     then (True, svc_emit (LogInfo (''Discord notification sent successfully for: '' @ title data)) sv2)
                     else (False, svc_emit (LogError (''Discord notification failed: '' @ str_int status_code)) sv2))))"

definition app_prepare_structured_data :: "env \<Rightarrow> submission \<Rightarrow> int \<Rightarrow> service \<Rightarrow> structured_entry \<times> service" where
  "app_prepare_structured_data env data entry_number sv =
     (let (translated_title, sv1) = app_translate_text env (title data) ''ja'' ''en'' sv;
          (translated_quote, sv2) = app_translate_text env (quote data) ''ja'' ''en'' sv1;
          now = datetime_now_isoformat env (svc_effects sv2);
          sv3 = svc_emit NowCall sv2
      in (\<lparr>entry_id = ''entry_'' @ str_int entry_number,
           entry_timestamp = timestamp data,
           entry_submitter = submitter data,
           entry_title = \<lparr>original = title data, translated = translated_title\<rparr>,
           entry_quote = \<lparr>original = quote data, translated = translated_quote\<rparr>,
           tags = \<lparr>affirmative = aff_tags data, negative = neg_tags data\<rparr>,
           source = \<lparr>url = source_url data, src_update_date = update_date data,
                     src_eng_source = eng_source data\<rparr>,
           metadata = \<lparr>meta_attachment = attachment data, meta_remark = remark data,
                       processed_at = now\<rparr>\<rparr>, sv3))"

text \<open>
  \<open>process_submission\<close> of app.py takes the submission already extracted. For a submission
  with its eleven keys no step raises, so the \<open>except\<close> branch (the result
  \<open>NotProcessed\<close>) is not taken.
\<close>

definition app_process_submission :: "env \<Rightarrow> submission \<Rightarrow> int \<Rightarrow> service \<Rightarrow> process_result \<times> service" where
  "app_process_submission env submission_data entry_number sv =
     (let (docs_result, sv1) =
            app_add_to_docs env entry_number submission_data
              (svc_emit (Enter_process_submission entry_number) sv);
          (discord_result, sv2) = app_send_discord_notification env entry_number submission_data sv1;
          (structured_entry, sv3) = app_prepare_structured_data env submission_data entry_number sv2
      in (Processed entry_number docs_result discord_result structured_entry,
          sv3\<lparr>svc_structured_data := svc_structured_data sv3 @ [structured_entry]\<rparr>))"

section \<open>Observations on the history\<close>

fun entered_rows :: "effect list \<Rightarrow> int list" where
  "entered_rows [] = []"
| "entered_rows (Enter_process_submission n # es) = n # entered_rows es"
| "entered_rows (_ # es) = entered_rows es"

fun posted_contents :: "effect list \<Rightarrow> string list" where
  "posted_contents [] = []"
| "posted_contents (PostCall u content # es) = content # posted_contents es"
| "posted_contents (_ # es) = posted_contents es"

fun translate_requests :: "effect list \<Rightarrow> string list" where
  "translate_requests [] = []"
| "translate_requests (TranslateCall s t text # es) = text # translate_requests es"
| "translate_requests (_ # es) = translate_requests es"

text \<open>The first line of a text.\<close>

definition first_line :: "string \<Rightarrow> string" where
  "first_line s = takeWhile (\<lambda>c. c \<noteq> CHR ''\<newline>'') s"

section \<open>Concrete inputs\<close>

text \<open>The row of the end-to-end scenario A, with an ASCII quote and remark.\<close>

definition rowA :: "string list" where
  "rowA = [''2024-01-01'', ''Alice'', ''Title1'', ''t1, t2'', [], ''http://x'',
           ''2024-01-01'', ''Src'', ''Quote'', [], ''Remark'']"

definition header_row :: "string list" where
  "header_row = [''Timestamp'', ''Submitter'', ''Title'', ''AFF'', ''NEG'', ''URL'',
                 ''Date'', ''EngSource'', ''Quote'', ''Attachment'', ''Remark'']"

text \<open>
  A world in which the translation service answers \<open>EN\<close> to everything, the webhook
  accepts every message and the sheet holds the header, \<open>rowA\<close>, a row of nine fields and
  \<open>rowA\<close> again.
\<close>

definition env_ok :: env where
  "env_ok =
     \<lparr>translate_execute = (\<lambda>h s t text. ProviderResult (Some [Some ''EN''])),
      requests_post = (\<lambda>h u c. PostStatus 204),
      datetime_now_isoformat = (\<lambda>h. ''2024-01-02T00:00:00''),
      get_all_values = (\<lambda>h sid name. FetchRows [header_row, rowA, take 9 rowA, rowA])\<rparr>"

text \<open>A world in which every external call raises.\<close>

definition env_down :: env where
  "env_down =
     \<lparr>translate_execute = (\<lambda>h s t text. ProviderRaises ''unavailable''),
      requests_post = (\<lambda>h u c. PostRaises ''connection refused''),
      datetime_now_isoformat = (\<lambda>h. ''2024-01-02T00:00:00''),
      get_all_values = (\<lambda>h sid name. FetchRaises ''quota exceeded'')\<rparr>"

definition dataA :: submission where
  "dataA = \<lparr>timestamp = ''2024-01-01'', submitter = ''Alice'', title = ''Title1'',
            aff_tags = [''t1'', ''t2''], neg_tags = [],
            source_url = ''http://x'', update_date = ''2024-01-01'', eng_source = ''Src'',
            quote = ''Quote'', attachment = [], remark = ''Remark''\<rparr>"

section \<open>Extraction\<close>

lemma py_getitem_nth: "i < length xs \<Longrightarrow> py_getitem xs (int i) = Inr (xs ! i)"
  by (simp add: py_getitem_def)

lemma parse_tags_Inr:
  "parse_tags field = Inr (if field = [] then [] else py_split_from '', '' [] field)"
  by (simp add: parse_tags_def py_split_def)

lemma extract_try_long:
  assumes "11 \<le> length row_data"
  shows "extract_try report row_data =
     Inr (Some \<lparr>timestamp = row_data ! 0, submitter = row_data ! 1, title = row_data ! 2,
            aff_tags = (if row_data ! 3 = [] then [] else py_split_from '', '' [] (row_data ! 3)),
            neg_tags = (if row_data ! 4 = [] then [] else py_split_from '', '' [] (row_data ! 4)),
            source_url = row_data ! 5, update_date = row_data ! 6, eng_source = row_data ! 7,
            quote = row_data ! 8, attachment = row_data ! 9, remark = row_data ! 10\<rparr>, [])"
proof -
  have g: "\<And>i. i < 11 \<Longrightarrow> py_getitem row_data (int i) = Inr (row_data ! i)"
    using assms by (simp add: py_getitem_nth)
  show ?thesis
    using assms g[of 0] g[of 1] g[of 2] g[of 3] g[of 4] g[of 5] g[of 6] g[of 7] g[of 8] g[of 9] g[of 10]
    by (simp add: extract_try_def bind_exc_def parse_tags_Inr)
qed

lemma extract_try_short:
  "length row_data < 11 \<Longrightarrow> extract_try report row_data =
     Inr (None, [report (''Insufficient data in row: '' @ str_int (int (length row_data)) @ '' columns'')])"
  by (simp add: extract_try_def)

lemma extract_submission_data_long:
  "11 \<le> length row_data \<Longrightarrow>
     extract_submission_data row_data st =
       (Some \<lparr>timestamp = row_data ! 0, submitter = row_data ! 1, title = row_data ! 2,
            aff_tags = (if row_data ! 3 = [] then [] else py_split_from '', '' [] (row_data ! 3)),
            neg_tags = (if row_data ! 4 = [] then [] else py_split_from '', '' [] (row_data ! 4)),
            source_url = row_data ! 5, update_date = row_data ! 6, eng_source = row_data ! 7,
            quote = row_data ! 8, attachment = row_data ! 9, remark = row_data ! 10\<rparr>, st)"
  by (simp add: extract_submission_data_def extract_try_long)

lemma split_examples:
  "py_split_from '', '' [] ''a, b'' = [''a'', ''b'']"
  "py_split_from '', '' [] ''a'' = [''a'']"
  "py_split_from '', '' [] ''t1, t2'' = [''t1'', ''t2'']"
  "py_split_from '', '' [] '', b'' = [[], ''b'']"
  by code_simp+

text \<open>Joining the pieces of a split with the separator gives the string back.\<close>

lemma py_split_from_not_empty: "py_split_from sep piece s \<noteq> []"
proof (induction sep piece s rule: py_split_from.induct)
  case (1 sep piece s)
  then show ?case
    by (subst py_split_from.simps) simp
qed

lemma py_join_Cons: "ys \<noteq> [] \<Longrightarrow> py_join sep (x # ys) = x @ sep @ py_join sep ys"
  by (cases ys) simp_all

lemma py_join_split: "sep \<noteq> [] \<Longrightarrow> py_join sep (py_split_from sep piece s) = piece @ s"
proof (induction sep piece s rule: py_split_from.induct)
  case (1 sep piece s)
  show ?case
  proof (cases "s = []")
    case True
    then show ?thesis by (subst py_split_from.simps) simp
  next
    case False
    show ?thesis
    proof (cases "take (length sep) s = sep")
      case True
      then have "sep @ drop (length sep) s = s"
        by (metis append_take_drop_id)
      then show ?thesis
        using 1 False True
        by (subst py_split_from.simps) (simp add: py_join_Cons py_split_from_not_empty)
    next
      case nomatch: False
      then show ?thesis
        using 1 False
        by (subst py_split_from.simps) simp
    qed
  qed
qed

lemma str_int_small:
  "str_int 9 = ''9''" "str_int 1 = ''1''" "str_int 2 = ''2''" "str_int 3 = ''3''" "str_int 4 = ''4''"
  "str_int 0 = ''0''" "str_int 500 = ''500''"
  by code_simp+

text \<open>
  C4. A row with at least eleven fields is extracted: the result is a submission whose
  attributes are the fields 0 to 10 of the row in the fixed order, the two tag fields
  (3 and 4) split on \<open>", "\<close>, an empty tag field giving the empty list; nothing is printed.
  In particular \<open>""\<close> gives \<open>[]\<close>, \<open>"a, b"\<close> gives \<open>["a", "b"]\<close> and \<open>"a"\<close> gives \<open>["a"]\<close>.
\<close>

theorem extract_fields:
  "11 \<le> length row_data \<Longrightarrow>
     extract_submission_data row_data st =
       (Some \<lparr>timestamp = row_data ! 0, submitter = row_data ! 1, title = row_data ! 2,
            aff_tags = (if row_data ! 3 = [] then [] else py_split_from '', '' [] (row_data ! 3)),
            neg_tags = (if row_data ! 4 = [] then [] else py_split_from '', '' [] (row_data ! 4)),
            source_url = row_data ! 5, update_date = row_data ! 6, eng_source = row_data ! 7,
            quote = row_data ! 8, attachment = row_data ! 9, remark = row_data ! 10\<rparr>, st)
     \<and> parse_tags [] = Inr []
     \<and> parse_tags ''a, b'' = Inr [''a'', ''b'']
     \<and> parse_tags ''a'' = Inr [''a'']"
proof -
  assume a: "11 \<le> length row_data"
  show ?thesis
    by (simp add: extract_submission_data_def extract_try_long[OF a] parse_tags_Inr split_examples)
qed

theorem extract_fields_witness:
  "extract_submission_data rowA (init_system ''u'') = (Some dataA, init_system ''u'')"
proof -
  have l: "11 \<le> length rowA" by (simp add: rowA_def)
  show ?thesis
    using extract_fields[OF l, of "init_system ''u''"]
    by (simp add: rowA_def dataA_def split_examples)
qed

text \<open>
  C5. A row with fewer than eleven fields is not extracted: the result is \<open>None\<close>, and the
  failure is reported as the line \<open>Insufficient data in row: n columns\<close>, where \<open>n\<close> is the
  number of fields of the row.
\<close>

theorem extract_insufficient:
  "length row_data < 11 \<Longrightarrow>
     extract_submission_data row_data st =
       (None, emit (Print (''Insufficient data in row: '' @ str_int (int (length row_data)) @ '' columns'')) st)"
  by (simp add: extract_submission_data_def extract_try_short emit_def)

theorem extract_insufficient_witness:
  "extract_submission_data (take 9 rowA) (init_system ''u'') =
       (None, emit (Print ''Insufficient data in row: 9 columns'') (init_system ''u''))"
proof -
  have l: "length (take 9 rowA) < 11" by (simp add: rowA_def)
  show ?thesis
    using extract_insufficient[OF l, of "init_system ''u''"]
    by (simp add: rowA_def str_int_small)
qed

text \<open>
  C10. Extraction is total: on every row the \<open>try\<close> block returns without raising (no
  index is out of range and the separator is not empty), so the \<open>except\<close> branch is never
  taken; the result is \<open>None\<close> exactly for the rows with fewer than eleven fields; and a row
  with more than eleven fields gives what its first eleven fields give. This holds for
  \<open>extract_submission_data\<close> of process_submission.py and of app.py.
\<close>

theorem extract_total:
  "(\<exists>result reported. extract_try report row_data = Inr (result, reported))
   \<and> (fst (extract_submission_data row_data st) = None \<longleftrightarrow> length row_data < 11)
   \<and> (fst (app_extract_submission_data row_data sv) = None \<longleftrightarrow> length row_data < 11)
   \<and> (11 < length row_data \<longrightarrow>
        extract_submission_data row_data st = extract_submission_data (take 11 row_data) st
      \<and> app_extract_submission_data row_data sv = app_extract_submission_data (take 11 row_data) sv)"
proof (cases "length row_data < 11")
  case True
  then show ?thesis
    by (simp add: extract_submission_data_def app_extract_submission_data_def extract_try_short)
next
  case False
  then have a: "11 \<le> length row_data" by simp
  then have b: "11 \<le> length (take 11 row_data)" by simp
  show ?thesis
    using a by (simp add: extract_submission_data_def app_extract_submission_data_def
        extract_try_long[OF a] extract_try_long[OF b])
qed

theorem extract_total_witness:
  "extract_submission_data (rowA @ [''extra'', ''more'']) (init_system ''u'')
     = extract_submission_data rowA (init_system ''u'')"
  using extract_total[of Print "rowA @ [''extra'', ''more'']" "init_system ''u''"]
  by (simp add: rowA_def)

section \<open>Translation\<close>

text \<open>
  C6. When the call to the translation service raises, or its response has no
  \<open>'translations'\<close> key or an empty list under it, \<open>translate_text\<close> returns the text it
  was given. The failure does not reach the caller: \<open>translate_text\<close> returns normally,
  and the state it leaves is the one it found, with at most the call and one printed line
  \<open>Translation error: ...\<close> added to the history. (The exceptions meant are those
  \<open>except Exception\<close> catches.)
\<close>

theorem translate_text_fallback:
  assumes "translate_execute env (effects st) source_lang target_lang text = ProviderRaises msg
         \<or> translate_execute env (effects st) source_lang target_lang text = ProviderResult None
         \<or> translate_execute env (effects st) source_lang target_lang text = ProviderResult (Some [])"
  shows "fst (translate_text env text source_lang target_lang st) = text
       \<and> (snd (translate_text env text source_lang target_lang st) = st
          \<or> snd (translate_text env text source_lang target_lang st)
               = emit (TranslateCall source_lang target_lang text) st
          \<or> snd (translate_text env text source_lang target_lang st)
               = emit (Print (''Translation error: '' @ msg))
                   (emit (TranslateCall source_lang target_lang text) st))"
  using assms
  by (auto simp add: translate_text_def translate_try_def Let_def)

theorem translate_text_fallback_witness:
  "translate_text env_down ''abc'' ''ja'' ''en'' (init_system ''u'')
     = (''abc'', emit (Print ''Translation error: unavailable'')
                   (emit (TranslateCall ''ja'' ''en'' ''abc'') (init_system ''u'')))"
proof -
  have r: "translate_execute env_down (effects (init_system ''u'')) ''ja'' ''en'' ''abc''
             = ProviderRaises ''unavailable''"
    by (simp add: env_down_def)
  have n: "\<not> strip_is_empty ''abc''" by (simp add: space1_def space2_def space3_def)
  show ?thesis
    using translate_text_fallback[of env_down "init_system ''u''" "''ja''" "''en''" "''abc''" "''unavailable''"] r n
    by (auto simp add: translate_text_def translate_try_def Let_def prod_eq_iff)
qed

section \<open>Tag groups\<close>

lemma foldl_append_tags:
  "foldl (\<lambda>acc tag. acc @ f tag) acc tag_list = acc @ concat (map f tag_list)"
  by (induction tag_list arbitrary: acc) simp_all

text \<open>
  C7, as the code has it. A tag group is shown exactly when its list is not empty and its
  first tag is not empty; a shown group is the marker followed by every tag of the list.
  In the notification the marker is \<open>[AFF]\<close> or \<open>[NEG]\<close>, each tag is written
  \<open>#tag\<close> followed by a space, and a line break separates the two groups when both are
  shown. In the tag line of the document entry, after \<open>#submitter\<close>, the marker is
  \<open>[AFF]\<close> or \<open>[NEG]\<close> preceded by a space, each tag is written \<open>#tag\<close> preceded by a
  space, and the two groups follow each other on the same line. The raw field \<open>", b"\<close>
  gives the tags \<open>["", "b"]\<close>, a group that is not shown.
\<close>

theorem tag_groups:
  "notification_tags_text data =
       (if tags_shown (aff_tags data)
        then ''[AFF]'' @ concat (map (\<lambda>tag. ''#'' @ tag @ '' '') (aff_tags data)) else [])
     @ (if tags_shown (aff_tags data) \<and> tags_shown (neg_tags data) then ''\<newline>'' else [])
     @ (if tags_shown (neg_tags data)
        then ''[NEG]'' @ concat (map (\<lambda>tag. ''#'' @ tag @ '' '') (neg_tags data)) else [])
   \<and> fc_tags (docs_formatted_content entry_number data translated_quote) =
       ''#'' @ submitter data
     @ (if tags_shown (aff_tags data)
        then '' [AFF]'' @ concat (map (\<lambda>tag. '' #'' @ tag) (aff_tags data)) else [])
     @ (if tags_shown (neg_tags data)
        then '' [NEG]'' @ concat (map (\<lambda>tag. '' #'' @ tag) (neg_tags data)) else [])
   \<and> (tags_shown tag_list \<longleftrightarrow> tag_list \<noteq> [] \<and> hd tag_list \<noteq> [])
   \<and> parse_tags '', b'' = Inr [[], ''b'']
   \<and> \<not> tags_shown [[], ''b'']"
proof -
  have n: "notification_tags_text data =
       (if tags_shown (aff_tags data)
        then ''[AFF]'' @ concat (map (\<lambda>tag. ''#'' @ tag @ '' '') (aff_tags data)) else [])
     @ (if tags_shown (aff_tags data) \<and> tags_shown (neg_tags data) then ''\<newline>'' else [])
     @ (if tags_shown (neg_tags data)
        then ''[NEG]'' @ concat (map (\<lambda>tag. ''#'' @ tag @ '' '') (neg_tags data)) else [])"
    by (simp add: notification_tags_text_def Let_def foldl_append_tags)
  have d: "fc_tags (docs_formatted_content entry_number data translated_quote) =
       ''#'' @ submitter data
     @ (if tags_shown (aff_tags data)
        then '' [AFF]'' @ concat (map (\<lambda>tag. '' #'' @ tag) (aff_tags data)) else [])
     @ (if tags_shown (neg_tags data)
        then '' [NEG]'' @ concat (map (\<lambda>tag. '' #'' @ tag) (neg_tags data)) else [])"
  proof -
    have k: "(@) '' #'' = (\<lambda>tag. CHR '' '' # CHR ''#'' # tag)"
      by (rule ext) simp
    show ?thesis
      by (simp add: docs_formatted_content_def Let_def foldl_append_tags k)
  qed
  have s: "tags_shown tag_list \<longleftrightarrow> tag_list \<noteq> [] \<and> hd tag_list \<noteq> []"
    by (cases tag_list) (simp_all add: tags_shown_def)
  have p: "parse_tags '', b'' = Inr [[], ''b'']"
    by (simp add: parse_tags_Inr split_examples)
  have e: "\<not> tags_shown [[], ''b'']"
    by (simp add: tags_shown_def)
  from n d s p e show ?thesis by blast
qed

theorem tag_groups_witness:
  "notification_tags_text (dataA\<lparr>neg_tags := [''n1'']\<rparr>) = ''[AFF]#t1 #t2 \<newline>[NEG]#n1 ''
   \<and> fc_tags (docs_formatted_content 1 (dataA\<lparr>neg_tags := [''n1'']\<rparr>) ''EN'')
       = ''#Alice [AFF] #t1 #t2 [NEG] #n1''
   \<and> notification_tags_text (dataA\<lparr>aff_tags := [[], ''b'']\<rparr>) = []"
  using tag_groups[of "dataA\<lparr>neg_tags := [''n1'']\<rparr>" 1 "''EN''" "[]"]
        tag_groups[of "dataA\<lparr>aff_tags := [[], ''b'']\<rparr>" 1 "''EN''" "[]"]
  by (simp add: dataA_def tags_shown_def)

text \<open>
  C7 as stated fails for the document entry: with both groups shown, its tag line is
  \<open>#Alice [AFF] #t1 #t2 [NEG] #n1\<close>, which has no line break.
\<close>

theorem docs_tag_groups_on_one_line:
  "tags_shown (aff_tags (dataA\<lparr>neg_tags := [''n1'']\<rparr>))
   \<and> tags_shown (neg_tags (dataA\<lparr>neg_tags := [''n1'']\<rparr>))
   \<and> fc_tags (docs_formatted_content 1 (dataA\<lparr>neg_tags := [''n1'']\<rparr>) ''EN'')
       = ''#Alice [AFF] #t1 #t2 [NEG] #n1''
   \<and> CHR ''\<newline>'' \<notin> set (fc_tags (docs_formatted_content 1 (dataA\<lparr>neg_tags := [''n1'']\<rparr>) ''EN''))"
  by (simp add: docs_formatted_content_def Let_def dataA_def tags_shown_def)

section \<open>What each step leaves behind\<close>

lemma entered_rows_append: "entered_rows (xs @ ys) = entered_rows xs @ entered_rows ys"
  by (induction xs rule: entered_rows.induct) simp_all

lemma translate_requests_append: "translate_requests (xs @ ys) = translate_requests xs @ translate_requests ys"
  by (induction xs rule: translate_requests.induct) simp_all

lemma posted_contents_append: "posted_contents (xs @ ys) = posted_contents xs @ posted_contents ys"
  by (induction xs rule: posted_contents.induct) simp_all

lemma translate_text_fields:
  "last_processed_row (snd (translate_text env text s t st)) = last_processed_row st"
  "structured_data (snd (translate_text env text s t st)) = structured_data st"
  "discord_webhook_url (snd (translate_text env text s t st)) = discord_webhook_url st"
  by (simp_all add: translate_text_def Let_def emit_def split: sum.splits)

lemma translate_text_effects:
  "\<exists>evs. effects (snd (translate_text env text s t st)) = effects st @ evs
         \<and> entered_rows evs = [] \<and> posted_contents evs = []"
  by (simp add: translate_text_def Let_def emit_def split: sum.splits)

lemma add_to_docs_fields:
  "last_processed_row (add_to_docs env n d st) = last_processed_row st"
  "structured_data (add_to_docs env n d st) = structured_data st"
  "discord_webhook_url (add_to_docs env n d st) = discord_webhook_url st"
  by (simp_all add: add_to_docs_def Let_def emit_def split_beta translate_text_fields)

lemma add_to_docs_effects:
  "\<exists>evs. effects (add_to_docs env n d st) = effects st @ evs
         \<and> entered_rows evs = [] \<and> posted_contents evs = []
         \<and> Print (''Content prepared for Google Docs: '' @ title d) \<in> set evs"
proof -
  obtain evs where e: "effects (snd (translate_text env (quote d) ''ja'' ''en'' st)) = effects st @ evs"
      "entered_rows evs = []" "posted_contents evs = []"
    using translate_text_effects by blast
  have "effects (add_to_docs env n d st)
          = effects st @ (evs @ [Print (''Content prepared for Google Docs: '' @ title d)])"
    by (simp add: add_to_docs_def Let_def emit_def split_beta e)
  then show ?thesis
    using e by (intro exI[of _ "evs @ [Print (''Content prepared for Google Docs: '' @ title d)]"])
      (simp add: entered_rows_append posted_contents_append)
qed

lemma send_discord_notification_fields:
  "last_processed_row (send_discord_notification env n d st) = last_processed_row st"
  "structured_data (send_discord_notification env n d st) = structured_data st"
  "discord_webhook_url (send_discord_notification env n d st) = discord_webhook_url st"
  by (simp_all add: send_discord_notification_def Let_def emit_def split_beta translate_text_fields
      split: post_result.splits)

lemma send_discord_notification_effects:
  "\<exists>evs. effects (send_discord_notification env n d st) = effects st @ evs
         \<and> entered_rows evs = []
         \<and> posted_contents evs =
             [notification_content n d (fst (translate_text env (quote d) ''ja'' ''en'' st))]"
proof -
  obtain evs where e: "effects (snd (translate_text env (quote d) ''ja'' ''en'' st)) = effects st @ evs"
      "entered_rows evs = []" "posted_contents evs = []"
    using translate_text_effects by blast
  define c where "c = notification_content n d (fst (translate_text env (quote d) ''ja'' ''en'' st))"
  have "\<exists>line. effects (send_discord_notification env n d st)
          = effects st @ (evs @ [PostCall (discord_webhook_url st) c, Print line])"
    by (simp add: send_discord_notification_def Let_def emit_def split_beta e c_def translate_text_fields
        split: post_result.splits)
  then obtain line where "effects (send_discord_notification env n d st)
          = effects st @ (evs @ [PostCall (discord_webhook_url st) c, Print line])" by blast
  then show ?thesis
    using e by (intro exI[of _ "evs @ [PostCall (discord_webhook_url st) c, Print line]"])
      (simp add: entered_rows_append posted_contents_append c_def)
qed

lemma prepare_structured_data_fields:
  "last_processed_row (snd (prepare_structured_data env d n st)) = last_processed_row st"
  "structured_data (snd (prepare_structured_data env d n st)) = structured_data st"
  "discord_webhook_url (snd (prepare_structured_data env d n st)) = discord_webhook_url st"
  "entry_id (fst (prepare_structured_data env d n st)) = ''entry_'' @ str_int n"
  by (simp_all add: prepare_structured_data_def Let_def emit_def split_beta translate_text_fields)

lemma prepare_structured_data_effects:
  "\<exists>evs. effects (snd (prepare_structured_data env d n st)) = effects st @ evs
         \<and> entered_rows evs = [] \<and> posted_contents evs = []"
proof -
  obtain evs1 where e1: "effects (snd (translate_text env (title d) ''ja'' ''en'' st)) = effects st @ evs1"
      "entered_rows evs1 = []" "posted_contents evs1 = []"
    using translate_text_effects by blast
  obtain evs2 where e2: "effects (snd (translate_text env (quote d) ''ja'' ''en''
                                   (snd (translate_text env (title d) ''ja'' ''en'' st))))
                          = effects (snd (translate_text env (title d) ''ja'' ''en'' st)) @ evs2"
      "entered_rows evs2 = []" "posted_contents evs2 = []"
    using translate_text_effects by blast
  have "effects (snd (prepare_structured_data env d n st)) = effects st @ (evs1 @ evs2 @ [NowCall])"
    by (simp add: prepare_structured_data_def Let_def emit_def split_beta e1 e2)
  then show ?thesis
    using e1 e2 by (intro exI[of _ "evs1 @ evs2 @ [NowCall]"])
      (simp add: entered_rows_append posted_contents_append)
qed

lemma process_submission_fields:
  "last_processed_row (process_submission env row n st) = last_processed_row st"
  "discord_webhook_url (process_submission env row n st) = discord_webhook_url st"
  by (cases "length row < 11";
      simp add: process_submission_def extract_submission_data_def extract_try_short extract_try_long
        emit_def split_beta Let_def prepare_structured_data_fields send_discord_notification_fields
        add_to_docs_fields)+

lemma process_submission_short:
  "length row < 11 \<Longrightarrow>
     process_submission env row n st =
       st\<lparr>effects := effects st @ [Enter_process_submission n,
              Print (''Insufficient data in row: '' @ str_int (int (length row)) @ '' columns'')]\<rparr>"
  by (simp add: process_submission_def extract_submission_data_def extract_try_short emit_def)

lemma process_submission_long:
  assumes "11 \<le> length row"
  shows "\<exists>data evs tq entry.
            fst (extract_submission_data row st) = Some data
          \<and> effects (process_submission env row n st) = effects st @ Enter_process_submission n # evs
          \<and> entered_rows evs = []
          \<and> Print (''Content prepared for Google Docs: '' @ title data) \<in> set evs
          \<and> posted_contents evs = [notification_content (n - 1) data tq]
          \<and> structured_data (process_submission env row n st) = structured_data st @ [entry]
          \<and> entry_id entry = ''entry_'' @ str_int n"
proof -
  define data where "data = \<lparr>timestamp = row ! 0, submitter = row ! 1, title = row ! 2,
            aff_tags = (if row ! 3 = [] then [] else py_split_from '', '' [] (row ! 3)),
            neg_tags = (if row ! 4 = [] then [] else py_split_from '', '' [] (row ! 4)),
            source_url = row ! 5, update_date = row ! 6, eng_source = row ! 7,
            quote = row ! 8, attachment = row ! 9, remark = row ! 10\<rparr>"
  define st0 where "st0 = emit (Enter_process_submission n) st"
  define st1 where "st1 = add_to_docs env (n - 1) data st0"
  define st2 where "st2 = send_discord_notification env (n - 1) data st1"
  define r where "r = prepare_structured_data env data n st2"
  have x: "\<And>s. extract_submission_data row s = (Some data, s)"
    using extract_submission_data_long[OF assms] by (simp add: data_def)
  have p: "process_submission env row n st = (snd r)\<lparr>structured_data := structured_data (snd r) @ [fst r]\<rparr>"
    by (simp add: process_submission_def x Let_def split_beta st0_def st1_def st2_def r_def)
  obtain e1 where e1: "effects st1 = effects st0 @ e1" "entered_rows e1 = []" "posted_contents e1 = []"
      "Print (''Content prepared for Google Docs: '' @ title data) \<in> set e1"
    unfolding st1_def using add_to_docs_effects by blast
  obtain e2 where e2: "effects st2 = effects st1 @ e2" "entered_rows e2 = []"
      "posted_contents e2 = [notification_content (n - 1) data
                               (fst (translate_text env (quote data) ''ja'' ''en'' st1))]"
    unfolding st2_def using send_discord_notification_effects by blast
  obtain e3 where e3: "effects (snd r) = effects st2 @ e3" "entered_rows e3 = []" "posted_contents e3 = []"
    unfolding r_def using prepare_structured_data_effects by blast
  have s: "structured_data (snd r) = structured_data st"
    by (simp add: r_def st2_def st1_def st0_def emit_def prepare_structured_data_fields
        send_discord_notification_fields add_to_docs_fields)
  have i: "entry_id (fst r) = ''entry_'' @ str_int n"
    by (simp add: r_def prepare_structured_data_fields)
  have f: "effects (process_submission env row n st)
             = effects st @ Enter_process_submission n # (e1 @ e2 @ e3)"
    by (simp add: p e3 e2 e1 st0_def emit_def)
  show ?thesis
    apply (rule exI[of _ data])
    apply (rule exI[of _ "e1 @ e2 @ e3"])
    apply (rule exI[of _ "fst (translate_text env (quote data) ''ja'' ''en'' st1)"])
    apply (rule exI[of _ "fst r"])
    using x f e1 e2 e3 s i p
    apply (simp add: entered_rows_append posted_contents_append)
    done
qed

lemma process_submission_effects:
  "\<exists>evs. effects (process_submission env row n st) = effects st @ Enter_process_submission n # evs
       \<and> entered_rows evs = []"
proof (cases "length row < 11")
  case True
  then show ?thesis by (simp add: process_submission_short)
next
  case False
  then have "11 \<le> length row" by simp
  from process_submission_long[OF this, of st env n] show ?thesis by blast
qed

lemma process_rows_effects:
  assumes "\<forall>i \<in> set idx. 1 \<le> i \<and> i \<le> int (length all_rows)"
  shows "\<exists>st'. process_rows env all_rows idx st = (None, st')
             \<and> last_processed_row st' = last_processed_row st
             \<and> discord_webhook_url st' = discord_webhook_url st
             \<and> entered_rows (effects st') = entered_rows (effects st) @ idx"
  using assms
proof (induction idx arbitrary: st)
  case Nil
  then show ?case by simp
next
  case (Cons i idx)
  then have r: "1 \<le> i" "i \<le> int (length all_rows)" by simp_all
  then have g: "py_getitem all_rows (i - 1) = Inr (all_rows ! nat (i - 1))"
    by (simp add: py_getitem_def)
  define st1 where "st1 = process_submission env (all_rows ! nat (i - 1)) i st"
  obtain evs where e: "effects st1 = effects st @ Enter_process_submission i # evs" "entered_rows evs = []"
    unfolding st1_def using process_submission_effects by blast
  from Cons obtain st' where s: "process_rows env all_rows idx st1 = (None, st')"
      "last_processed_row st' = last_processed_row st1"
      "discord_webhook_url st' = discord_webhook_url st1"
      "entered_rows (effects st') = entered_rows (effects st1) @ idx"
    by (metis list.set_intros(2))
  show ?case
    using s e by (simp add: g st1_def[symmetric] entered_rows_append)
      (simp add: st1_def process_submission_fields)
qed

section \<open>The polling cycle\<close>

lemma monitor_spreadsheet_raises:
  "get_all_values env (effects st) sid name = FetchRaises msg \<Longrightarrow>
     monitor_spreadsheet env sid name st =
       st\<lparr>effects := effects st @ [SheetCall sid name, Print (''Error monitoring spreadsheet: '' @ msg)]\<rparr>"
  by (simp add: monitor_spreadsheet_def emit_def)

lemma monitor_spreadsheet_rows:
  assumes "get_all_values env (effects st) sid name = FetchRows all_rows"
  shows "entered_rows (effects (monitor_spreadsheet env sid name st)) =
           entered_rows (effects st) @ [max 2 (last_processed_row st + 1) .. int (length all_rows)]
       \<and> last_processed_row (monitor_spreadsheet env sid name st) =
           (if max 2 (last_processed_row st + 1) \<le> int (length all_rows)
            then int (length all_rows) else last_processed_row st)
       \<and> discord_webhook_url (monitor_spreadsheet env sid name st) = discord_webhook_url st"
proof (cases "max 2 (last_processed_row st + 1) \<le> int (length all_rows)")
  case False
  then show ?thesis
    using assms by (auto simp add: monitor_spreadsheet_def emit_def Let_def entered_rows_append)
next
  case True
  define st1 where "st1 = emit (SheetCall sid name) st"
  define idx where "idx = [max 2 (last_processed_row st + 1) .. int (length all_rows)]"
  have "\<forall>i \<in> set idx. 1 \<le> i \<and> i \<le> int (length all_rows)"
    by (auto simp add: idx_def)
  from process_rows_effects[OF this, of env st1] obtain st2 where
    s: "process_rows env all_rows idx st1 = (None, st2)"
       "last_processed_row st2 = last_processed_row st1"
       "discord_webhook_url st2 = discord_webhook_url st1"
       "entered_rows (effects st2) = entered_rows (effects st1) @ idx"
    by blast
  have l: "last_processed_row st1 = last_processed_row st" "discord_webhook_url st1 = discord_webhook_url st"
     "entered_rows (effects st1) = entered_rows (effects st)"
    by (simp_all add: st1_def emit_def entered_rows_append)
  have m: "monitor_spreadsheet env sid name st = st2\<lparr>last_processed_row := int (length all_rows)\<rparr>"
    using assms True s(1)
    by (simp add: monitor_spreadsheet_def Let_def st1_def[symmetric] l idx_def[symmetric])
  show ?thesis
    using True s l by (simp add: m idx_def)
qed

lemma monitor_spreadsheet_mono:
  "last_processed_row st \<le> last_processed_row (monitor_spreadsheet env sid name st)"
proof (cases "get_all_values env (effects st) sid name")
  case (FetchRaises msg)
  then show ?thesis by (simp add: monitor_spreadsheet_raises)
next
  case (FetchRows all_rows)
  from monitor_spreadsheet_rows[OF this] show ?thesis by auto
qed

lemma monitor_spreadsheet_entered_raises:
  "get_all_values env (effects st) sid name = FetchRaises msg \<Longrightarrow>
     entered_rows (effects (monitor_spreadsheet env sid name st)) = entered_rows (effects st)"
  by (simp add: monitor_spreadsheet_raises entered_rows_append)

lemma strict_sorted_upto: "sorted_wrt (<) [i..j]"
  by (simp add: strict_sorted_iff)

lemma monitor_spreadsheet_invariant:
  assumes "sorted_wrt (<) (entered_rows (effects st))"
    and "\<forall>i \<in> set (entered_rows (effects st)). i \<le> last_processed_row st"
  shows "sorted_wrt (<) (entered_rows (effects (monitor_spreadsheet env sid name st)))
       \<and> (\<forall>i \<in> set (entered_rows (effects (monitor_spreadsheet env sid name st))).
             i \<le> last_processed_row (monitor_spreadsheet env sid name st))"
proof (cases "get_all_values env (effects st) sid name")
  case (FetchRaises msg)
  then show ?thesis
    using assms by (simp add: monitor_spreadsheet_raises entered_rows_append)
next
  case (FetchRows all_rows)
  note r = monitor_spreadsheet_rows[OF this]
  show ?thesis
    using assms r by (auto simp add: sorted_wrt_append strict_sorted_upto)
qed

lemma run_invariant:
  "sorted_wrt (<) (entered_rows (effects ((monitor_spreadsheet env sid name ^^ k) (init_system u))))
   \<and> (\<forall>i \<in> set (entered_rows (effects ((monitor_spreadsheet env sid name ^^ k) (init_system u)))).
         i \<le> last_processed_row ((monitor_spreadsheet env sid name ^^ k) (init_system u)))"
proof (induction k)
  case 0
  show ?case by (simp add: init_system_def)
next
  case (Suc k)
  then show ?case
    using monitor_spreadsheet_invariant[of "(monitor_spreadsheet env sid name ^^ k) (init_system u)" env sid name]
    by simp
qed

text \<open>
  C2. The offset starts at 0 and never decreases. A polling cycle that reads the sheet
  enters \<open>process_submission\<close> for exactly the rows with index in
  \<open>(last_processed_row, current_row_count]\<close> from row 2 on, in ascending order; this covers
  a sheet with the header only, where there is no such row. When the cycle processed a row,
  the offset is \<open>current_row_count\<close> afterwards. A cycle that finds the row count of the
  cycle before it processes no row and leaves the offset as it is. In a run of any number of
  cycles from the initial state no row index is processed twice: the row numbers processed
  are strictly increasing. The services may answer anything, in every cycle.
\<close>

theorem polling_offset:
  "last_processed_row (init_system webhook_url) = 0
   \<and> last_processed_row st \<le> last_processed_row (monitor_spreadsheet env sid name st)
   \<and> (get_all_values env (effects st) sid name = FetchRows all_rows \<longrightarrow>
        entered_rows (effects (monitor_spreadsheet env sid name st)) =
          entered_rows (effects st) @ [max 2 (last_processed_row st + 1) .. int (length all_rows)]
      \<and> set [max 2 (last_processed_row st + 1) .. int (length all_rows)] =
          {i. last_processed_row st < i \<and> i \<le> int (length all_rows) \<and> 2 \<le> i}
      \<and> ([max 2 (last_processed_row st + 1) .. int (length all_rows)] \<noteq> [] \<longrightarrow>
           last_processed_row (monitor_spreadsheet env sid name st) = int (length all_rows))
      \<and> (\<forall>next_rows.
            get_all_values env (effects (monitor_spreadsheet env sid name st)) sid name = FetchRows next_rows
            \<and> length next_rows = length all_rows \<longrightarrow>
              entered_rows (effects (monitor_spreadsheet env sid name (monitor_spreadsheet env sid name st)))
                = entered_rows (effects (monitor_spreadsheet env sid name st))
            \<and> last_processed_row (monitor_spreadsheet env sid name (monitor_spreadsheet env sid name st))
                = last_processed_row (monitor_spreadsheet env sid name st)))
   \<and> sorted_wrt (<) (entered_rows (effects ((monitor_spreadsheet env sid name ^^ k) (init_system webhook_url))))
   \<and> distinct (entered_rows (effects ((monitor_spreadsheet env sid name ^^ k) (init_system webhook_url))))"
proof -
  have a: "last_processed_row (init_system webhook_url) = 0"
    by (simp add: init_system_def)
  have b: "last_processed_row st \<le> last_processed_row (monitor_spreadsheet env sid name st)"
    by (rule monitor_spreadsheet_mono)
  have c: "get_all_values env (effects st) sid name = FetchRows all_rows \<longrightarrow>
        entered_rows (effects (monitor_spreadsheet env sid name st)) =
          entered_rows (effects st) @ [max 2 (last_processed_row st + 1) .. int (length all_rows)]
      \<and> set [max 2 (last_processed_row st + 1) .. int (length all_rows)] =
          {i. last_processed_row st < i \<and> i \<le> int (length all_rows) \<and> 2 \<le> i}
      \<and> ([max 2 (last_processed_row st + 1) .. int (length all_rows)] \<noteq> [] \<longrightarrow>
           last_processed_row (monitor_spreadsheet env sid name st) = int (length all_rows))
      \<and> (\<forall>next_rows.
            get_all_values env (effects (monitor_spreadsheet env sid name st)) sid name = FetchRows next_rows
            \<and> length next_rows = length all_rows \<longrightarrow>
              entered_rows (effects (monitor_spreadsheet env sid name (monitor_spreadsheet env sid name st)))
                = entered_rows (effects (monitor_spreadsheet env sid name st))
            \<and> last_processed_row (monitor_spreadsheet env sid name (monitor_spreadsheet env sid name st))
                = last_processed_row (monitor_spreadsheet env sid name st))"
  proof (intro impI)
    assume f: "get_all_values env (effects st) sid name = FetchRows all_rows"
    note r = monitor_spreadsheet_rows[OF f]
    have c1: "entered_rows (effects (monitor_spreadsheet env sid name st)) =
          entered_rows (effects st) @ [max 2 (last_processed_row st + 1) .. int (length all_rows)]"
      using r by simp
    have c2: "set [max 2 (last_processed_row st + 1) .. int (length all_rows)] =
          {i. last_processed_row st < i \<and> i \<le> int (length all_rows) \<and> 2 \<le> i}"
      by auto
    have c3: "[max 2 (last_processed_row st + 1) .. int (length all_rows)] \<noteq> [] \<longrightarrow>
           last_processed_row (monitor_spreadsheet env sid name st) = int (length all_rows)"
      using r by auto
    have c4: "\<forall>next_rows.
            get_all_values env (effects (monitor_spreadsheet env sid name st)) sid name = FetchRows next_rows
            \<and> length next_rows = length all_rows \<longrightarrow>
              entered_rows (effects (monitor_spreadsheet env sid name (monitor_spreadsheet env sid name st)))
                = entered_rows (effects (monitor_spreadsheet env sid name st))
            \<and> last_processed_row (monitor_spreadsheet env sid name (monitor_spreadsheet env sid name st))
                = last_processed_row (monitor_spreadsheet env sid name st)"
    proof (intro allI impI)
      fix next_rows
      assume n: "get_all_values env (effects (monitor_spreadsheet env sid name st)) sid name = FetchRows next_rows
            \<and> length next_rows = length all_rows"
      then have g: "get_all_values env (effects (monitor_spreadsheet env sid name st)) sid name = FetchRows next_rows"
        and l: "length next_rows = length all_rows" by simp_all
      note r2 = monitor_spreadsheet_rows[OF g]
      have e: "\<not> max 2 (last_processed_row (monitor_spreadsheet env sid name st) + 1) \<le> int (length next_rows)"
        using r l by (auto split: if_splits)
      show "entered_rows (effects (monitor_spreadsheet env sid name (monitor_spreadsheet env sid name st)))
                = entered_rows (effects (monitor_spreadsheet env sid name st))
            \<and> last_processed_row (monitor_spreadsheet env sid name (monitor_spreadsheet env sid name st))
                = last_processed_row (monitor_spreadsheet env sid name st)"
        using r2 e by simp
    qed
    from c1 c2 c3 c4 show "entered_rows (effects (monitor_spreadsheet env sid name st)) =
          entered_rows (effects st) @ [max 2 (last_processed_row st + 1) .. int (length all_rows)]
      \<and> set [max 2 (last_processed_row st + 1) .. int (length all_rows)] =
          {i. last_processed_row st < i \<and> i \<le> int (length all_rows) \<and> 2 \<le> i}
      \<and> ([max 2 (last_processed_row st + 1) .. int (length all_rows)] \<noteq> [] \<longrightarrow>
           last_processed_row (monitor_spreadsheet env sid name st) = int (length all_rows))
      \<and> (\<forall>next_rows.
            get_all_values env (effects (monitor_spreadsheet env sid name st)) sid name = FetchRows next_rows
            \<and> length next_rows = length all_rows \<longrightarrow>
              entered_rows (effects (monitor_spreadsheet env sid name (monitor_spreadsheet env sid name st)))
                = entered_rows (effects (monitor_spreadsheet env sid name st))
            \<and> last_processed_row (monitor_spreadsheet env sid name (monitor_spreadsheet env sid name st))
                = last_processed_row (monitor_spreadsheet env sid name st))"
      by blast
  qed
  have d: "sorted_wrt (<) (entered_rows (effects ((monitor_spreadsheet env sid name ^^ k) (init_system webhook_url))))"
    using run_invariant by blast
  then have e: "distinct (entered_rows (effects ((monitor_spreadsheet env sid name ^^ k) (init_system webhook_url))))"
    using strict_sorted_iff by blast
  from a b c d e show ?thesis by blast
qed

theorem polling_offset_witness:
  "last_processed_row (monitor_spreadsheet env_ok ''sid'' ''Responses'' (init_system ''u'')) = 4
   \<and> entered_rows (effects (monitor_spreadsheet env_ok ''sid'' ''Responses'' (init_system ''u''))) = [2, 3, 4]
   \<and> entered_rows (effects (monitor_spreadsheet env_ok ''sid'' ''Responses''
        (monitor_spreadsheet env_ok ''sid'' ''Responses'' (init_system ''u'')))) = [2, 3, 4]
   \<and> last_processed_row (monitor_spreadsheet env_ok ''sid'' ''Responses''
        (monitor_spreadsheet env_ok ''sid'' ''Responses'' (init_system ''u''))) = 4"
proof -
  define rows where "rows = [header_row, rowA, take 9 rowA, rowA]"
  have f: "\<And>h. get_all_values env_ok h ''sid'' ''Responses'' = FetchRows rows"
    by (simp add: env_ok_def rows_def)
  have u: "[max 2 (last_processed_row (init_system ''u'') + 1) .. int (length rows)] = [2, 3, 4]"
    by (simp add: init_system_def rows_def upto.simps)
  have i: "entered_rows (effects (init_system ''u'')) = []"
    by (simp add: init_system_def)
  have n: "length rows = 4"
    by (simp add: rows_def)
  show ?thesis
    using polling_offset[of "''u''" "init_system ''u''" env_ok "''sid''" "''Responses''" rows 0] f u i n
    by simp
qed

text \<open>
  C8. A row with fewer than eleven fields only leaves the report of the failed extraction:
  nothing is added to \<open>structured_data\<close>, nothing is translated and nothing is posted. The
  loop goes on with the rows after it, and at the end of a cycle that has new rows the
  offset is the row count, whether or not such a row is among them.
\<close>

theorem short_row_skipped:
  assumes "length row_data < 11"
  shows "process_submission env row_data row_number st =
           st\<lparr>effects := effects st @ [Enter_process_submission row_number,
                  Print (''Insufficient data in row: '' @ str_int (int (length row_data)) @ '' columns'')]\<rparr>
       \<and> structured_data (process_submission env row_data row_number st) = structured_data st
       \<and> posted_contents (effects (process_submission env row_data row_number st))
           = posted_contents (effects st)
       \<and> translate_requests (effects (process_submission env row_data row_number st))
           = translate_requests (effects st)
       \<and> (py_getitem all_rows (row_number - 1) = Inr row_data \<longrightarrow>
            process_rows env all_rows (row_number # later) st =
              process_rows env all_rows later (process_submission env row_data row_number st))
       \<and> (get_all_values env (effects st) sid name = FetchRows all_rows
            \<and> row_data \<in> set all_rows \<and> 2 \<le> length all_rows
            \<and> last_processed_row st < int (length all_rows) \<longrightarrow>
              last_processed_row (monitor_spreadsheet env sid name st) = int (length all_rows)
            \<and> entered_rows (effects (monitor_spreadsheet env sid name st)) =
                entered_rows (effects st) @ [max 2 (last_processed_row st + 1) .. int (length all_rows)])"
proof -
  have p: "process_submission env row_data row_number st =
           st\<lparr>effects := effects st @ [Enter_process_submission row_number,
                  Print (''Insufficient data in row: '' @ str_int (int (length row_data)) @ '' columns'')]\<rparr>"
    using assms by (rule process_submission_short)
  have m: "get_all_values env (effects st) sid name = FetchRows all_rows
            \<and> row_data \<in> set all_rows \<and> 2 \<le> length all_rows
            \<and> last_processed_row st < int (length all_rows) \<longrightarrow>
              last_processed_row (monitor_spreadsheet env sid name st) = int (length all_rows)
            \<and> entered_rows (effects (monitor_spreadsheet env sid name st)) =
                entered_rows (effects st) @ [max 2 (last_processed_row st + 1) .. int (length all_rows)]"
  proof (intro impI)
    assume h: "get_all_values env (effects st) sid name = FetchRows all_rows
            \<and> row_data \<in> set all_rows \<and> 2 \<le> length all_rows
            \<and> last_processed_row st < int (length all_rows)"
    then have f: "get_all_values env (effects st) sid name = FetchRows all_rows" by simp
    from monitor_spreadsheet_rows[OF f] h
    show "last_processed_row (monitor_spreadsheet env sid name st) = int (length all_rows)
            \<and> entered_rows (effects (monitor_spreadsheet env sid name st)) =
                entered_rows (effects st) @ [max 2 (last_processed_row st + 1) .. int (length all_rows)]"
      by auto
  qed
  show ?thesis
    using m by (simp add: p posted_contents_append translate_requests_append)
qed


theorem short_row_skipped_witness:
  "last_processed_row (monitor_spreadsheet env_ok ''sid'' ''Responses'' (init_system ''u'')) = 4
   \<and> entered_rows (effects (monitor_spreadsheet env_ok ''sid'' ''Responses'' (init_system ''u''))) = [2, 3, 4]
   \<and> process_submission env_ok (take 9 rowA) 3 (init_system ''u'') =
        (init_system ''u'')\<lparr>effects := [Enter_process_submission 3,
                                         Print ''Insufficient data in row: 9 columns'']\<rparr>"
proof -
  define rows where "rows = [header_row, rowA, take 9 rowA, rowA]"
  have f: "get_all_values env_ok (effects (init_system ''u'')) ''sid'' ''Responses'' = FetchRows rows"
    by (simp add: env_ok_def rows_def)
  have u: "[max 2 (last_processed_row (init_system ''u'') + 1) .. int (length rows)] = [2, 3, 4]"
    by (simp add: init_system_def rows_def upto.simps)
  have i: "entered_rows (effects (init_system ''u'')) = []" "effects (init_system ''u'') = []"
    "last_processed_row (init_system ''u'') = 0"
    by (simp_all add: init_system_def)
  have n: "length rows = 4" "take 9 rowA \<in> set rows" "length (take 9 rowA) = 9"
    by (simp_all add: rows_def rowA_def)
  have l: "length (take 9 rowA) < 11"
    by (simp add: rowA_def)
  show ?thesis
    using short_row_skipped[OF l, of env_ok 3 "init_system ''u''" rows "[]" "''sid''" "''Responses''"]
      f u i n
    by (simp add: str_int_small)
qed

section \<open>The steps of the web service\<close>

lemma app_translate_text_fields:
  "svc_discord_webhook_url (snd (app_translate_text env text s t sv)) = svc_discord_webhook_url sv"
  "svc_structured_data (snd (app_translate_text env text s t sv)) = svc_structured_data sv"
  by (simp_all add: app_translate_text_def Let_def svc_emit_def split: sum.splits)

lemma app_translate_text_effects:
  "\<exists>evs. svc_effects (snd (app_translate_text env text s t sv)) = svc_effects sv @ evs
         \<and> entered_rows evs = [] \<and> posted_contents evs = []"
  by (simp add: app_translate_text_def Let_def svc_emit_def split: sum.splits)

lemma app_add_to_docs_fields:
  "fst (app_add_to_docs env n d sv) = True"
  "svc_discord_webhook_url (snd (app_add_to_docs env n d sv)) = svc_discord_webhook_url sv"
  "svc_structured_data (snd (app_add_to_docs env n d sv)) = svc_structured_data sv"
  by (simp_all add: app_add_to_docs_def Let_def svc_emit_def split_beta app_translate_text_fields)

lemma app_add_to_docs_effects:
  "\<exists>evs. svc_effects (snd (app_add_to_docs env n d sv)) = svc_effects sv @ evs
         \<and> entered_rows evs = [] \<and> posted_contents evs = []
         \<and> LogInfo (''Formatted content for Google Docs: '' @ title d) \<in> set evs"
proof -
  obtain evs where e:
      "svc_effects (snd (app_translate_text env (quote d) ''ja'' ''en'' sv)) = svc_effects sv @ evs"
      "entered_rows evs = []" "posted_contents evs = []"
    using app_translate_text_effects by blast
  have "svc_effects (snd (app_add_to_docs env n d sv))
          = svc_effects sv @ (evs @ [LogInfo (''Formatted content for Google Docs: '' @ title d)])"
    by (simp add: app_add_to_docs_def Let_def svc_emit_def split_beta e)
  then show ?thesis
    using e by (intro exI[of _ "evs @ [LogInfo (''Formatted content for Google Docs: '' @ title d)]"])
      (simp add: entered_rows_append posted_contents_append)
qed

lemma app_send_discord_notification_fields:
  "svc_discord_webhook_url (snd (app_send_discord_notification env n d sv)) = svc_discord_webhook_url sv"
  "svc_structured_data (snd (app_send_discord_notification env n d sv)) = svc_structured_data sv"
  by (simp_all add: app_send_discord_notification_def Let_def svc_emit_def split_beta
      app_translate_text_fields split: post_result.splits option.splits)

lemma app_send_discord_notification_unconfigured:
  assumes "svc_discord_webhook_url sv = None \<or> svc_discord_webhook_url sv = Some []"
  shows "app_send_discord_notification env n d sv =
           (False, svc_emit (LogWarning ''Discord webhook URL not configured'') sv)"
  using assms by (auto simp add: app_send_discord_notification_def)

lemma app_send_discord_notification_effects:
  assumes "svc_discord_webhook_url sv = Some webhook_url" and "webhook_url \<noteq> []"
  shows "\<exists>evs. svc_effects (snd (app_send_discord_notification env n d sv)) = svc_effects sv @ evs
         \<and> entered_rows evs = []
         \<and> posted_contents evs =
             [notification_content n d (fst (app_translate_text env (quote d) ''ja'' ''en'' sv))]"
proof -
  obtain evs where e:
      "svc_effects (snd (app_translate_text env (quote d) ''ja'' ''en'' sv)) = svc_effects sv @ evs"
      "entered_rows evs = []" "posted_contents evs = []"
    using app_translate_text_effects by blast
  define c where "c = notification_content n d (fst (app_translate_text env (quote d) ''ja'' ''en'' sv))"
  have "\<exists>line. svc_effects (snd (app_send_discord_notification env n d sv))
          = svc_effects sv @ (evs @ [PostCall webhook_url c, line]) \<and> entered_rows [line] = []
            \<and> posted_contents [line] = []"
    using assms
    by (simp add: app_send_discord_notification_def Let_def svc_emit_def split_beta e c_def
        split: post_result.splits)
  then obtain line where l: "svc_effects (snd (app_send_discord_notification env n d sv))
          = svc_effects sv @ (evs @ [PostCall webhook_url c, line])"
       "entered_rows [line] = []" "posted_contents [line] = []" by blast
  have "entered_rows (evs @ [PostCall webhook_url c, line]) = []"
       "posted_contents (evs @ [PostCall webhook_url c, line]) = [c]"
    using e l(2,3) entered_rows_append[of "evs @ [PostCall webhook_url c]" "[line]"]
      posted_contents_append[of "evs @ [PostCall webhook_url c]" "[line]"]
    by (simp_all add: entered_rows_append posted_contents_append)
  then show ?thesis
    using l(1) unfolding c_def by blast
qed

lemma app_prepare_structured_data_fields:
  "svc_discord_webhook_url (snd (app_prepare_structured_data env d n sv)) = svc_discord_webhook_url sv"
  "svc_structured_data (snd (app_prepare_structured_data env d n sv)) = svc_structured_data sv"
  "entry_id (fst (app_prepare_structured_data env d n sv)) = ''entry_'' @ str_int n"
  by (simp_all add: app_prepare_structured_data_def Let_def svc_emit_def split_beta
      app_translate_text_fields)

lemma app_prepare_structured_data_effects:
  "\<exists>evs. svc_effects (snd (app_prepare_structured_data env d n sv)) = svc_effects sv @ evs
         \<and> entered_rows evs = [] \<and> posted_contents evs = []"
proof -
  obtain evs1 where e1:
      "svc_effects (snd (app_translate_text env (title d) ''ja'' ''en'' sv)) = svc_effects sv @ evs1"
      "entered_rows evs1 = []" "posted_contents evs1 = []"
    using app_translate_text_effects by blast
  obtain evs2 where e2:
      "svc_effects (snd (app_translate_text env (quote d) ''ja'' ''en''
                       (snd (app_translate_text env (title d) ''ja'' ''en'' sv))))
         = svc_effects (snd (app_translate_text env (title d) ''ja'' ''en'' sv)) @ evs2"
      "entered_rows evs2 = []" "posted_contents evs2 = []"
    using app_translate_text_effects by blast
  have "svc_effects (snd (app_prepare_structured_data env d n sv)) = svc_effects sv @ (evs1 @ evs2 @ [NowCall])"
    by (simp add: app_prepare_structured_data_def Let_def svc_emit_def split_beta e1 e2)
  then show ?thesis
    using e1 e2 by (intro exI[of _ "evs1 @ evs2 @ [NowCall]"])
      (simp add: entered_rows_append posted_contents_append)
qed

lemma app_process_submission_result:
  "\<exists>discord_sent entry evs.
      fst (app_process_submission env data n sv) = Processed n True discord_sent entry
    \<and> svc_structured_data (snd (app_process_submission env data n sv)) = svc_structured_data sv @ [entry]
    \<and> entry_id entry = ''entry_'' @ str_int n
    \<and> svc_effects (snd (app_process_submission env data n sv))
         = svc_effects sv @ Enter_process_submission n # evs
    \<and> LogInfo (''Formatted content for Google Docs: '' @ title data) \<in> set evs
    \<and> ((\<exists>tq. posted_contents evs = [notification_content n data tq])
       \<or> (discord_sent = False \<and> posted_contents evs = []
          \<and> LogWarning ''Discord webhook URL not configured'' \<in> set evs
          \<and> (svc_discord_webhook_url sv = None \<or> svc_discord_webhook_url sv = Some [])))"
proof -
  define sv0 where "sv0 = svc_emit (Enter_process_submission n) sv"
  define r1 where "r1 = app_add_to_docs env n data sv0"
  define r2 where "r2 = app_send_discord_notification env n data (snd r1)"
  define r3 where "r3 = app_prepare_structured_data env data n (snd r2)"
  have p: "app_process_submission env data n sv =
             (Processed n (fst r1) (fst r2) (fst r3),
              (snd r3)\<lparr>svc_structured_data := svc_structured_data (snd r3) @ [fst r3]\<rparr>)"
    by (simp add: app_process_submission_def Let_def split_beta sv0_def r1_def r2_def r3_def)
  have u: "svc_discord_webhook_url (snd r1) = svc_discord_webhook_url sv"
    by (simp add: r1_def sv0_def svc_emit_def app_add_to_docs_fields)
  obtain e1 where e1: "svc_effects (snd r1) = svc_effects sv0 @ e1" "entered_rows e1 = []"
      "posted_contents e1 = []" "LogInfo (''Formatted content for Google Docs: '' @ title data) \<in> set e1"
    unfolding r1_def using app_add_to_docs_effects by blast
  obtain e3 where e3: "svc_effects (snd r3) = svc_effects (snd r2) @ e3" "entered_rows e3 = []"
      "posted_contents e3 = []"
    unfolding r3_def using app_prepare_structured_data_effects by blast
  have s: "svc_structured_data (snd r3) = svc_structured_data sv"
    by (simp add: r3_def r2_def r1_def sv0_def svc_emit_def app_prepare_structured_data_fields
        app_send_discord_notification_fields app_add_to_docs_fields)
  have i: "entry_id (fst r3) = ''entry_'' @ str_int n" "fst r1 = True"
    by (simp_all add: r3_def r1_def app_prepare_structured_data_fields app_add_to_docs_fields)
  have "\<exists>e2. svc_effects (snd r2) = svc_effects (snd r1) @ e2
          \<and> ((\<exists>tq. posted_contents e2 = [notification_content n data tq])
             \<or> (fst r2 = False \<and> posted_contents e2 = []
                \<and> LogWarning ''Discord webhook URL not configured'' \<in> set e2
                \<and> (svc_discord_webhook_url sv = None \<or> svc_discord_webhook_url sv = Some [])))"
  proof (cases "svc_discord_webhook_url sv = None \<or> svc_discord_webhook_url sv = Some []")
    case True
    then have "r2 = (False, svc_emit (LogWarning ''Discord webhook URL not configured'') (snd r1))"
      unfolding r2_def using app_send_discord_notification_unconfigured u by metis
    then show ?thesis
      using True by (intro exI[of _ "[LogWarning ''Discord webhook URL not configured'']"])
        (simp add: svc_emit_def)
  next
    case False
    then obtain webhook_url where w: "svc_discord_webhook_url (snd r1) = Some webhook_url" "webhook_url \<noteq> []"
      using u by (cases "svc_discord_webhook_url sv") auto
    from app_send_discord_notification_effects[OF w, of env n data]
    show ?thesis unfolding r2_def by blast
  qed
  then obtain e2 where e2: "svc_effects (snd r2) = svc_effects (snd r1) @ e2"
     "(\<exists>tq. posted_contents e2 = [notification_content n data tq])
             \<or> (fst r2 = False \<and> posted_contents e2 = []
                \<and> LogWarning ''Discord webhook URL not configured'' \<in> set e2
                \<and> (svc_discord_webhook_url sv = None \<or> svc_discord_webhook_url sv = Some []))"
    by blast
  have f: "svc_effects (snd (app_process_submission env data n sv))
             = svc_effects sv @ Enter_process_submission n # (e1 @ e2 @ e3)"
    by (simp add: p e3 e2 e1 sv0_def svc_emit_def)
  show ?thesis
    apply (rule exI[of _ "fst r2"])
    apply (rule exI[of _ "fst r3"])
    apply (rule exI[of _ "e1 @ e2 @ e3"])
    using f e1 e2 e3 s i p
    apply (auto simp add: posted_contents_append)
    done
qed

section \<open>Deliveries\<close>

text \<open>
  C9. For a row with at least eleven fields and whatever the services do (the translation
  may raise in any of its calls, the POST may raise or be refused), \<open>process_submission\<close>
  of process_submission.py runs the document step to its end (its line is printed), then
  makes exactly one POST with the notification text, then appends exactly one record to
  \<open>structured_data\<close>. The document step comes first, so a failure of the notification
  cannot touch it. \<open>process_submission\<close> of app.py returns the result of a processed
  submission, with \<open>docs_added\<close> true and \<open>discord_sent\<close> as the notification step
  reported it, and appends the record; its notification step makes exactly one POST, or,
  when no webhook URL is configured, logs the warning and reports \<open>False\<close>.
\<close>

theorem deliveries_independent:
  assumes "11 \<le> length row_data"
  shows "(\<exists>data evs tq entry.
            fst (extract_submission_data row_data st) = Some data
          \<and> effects (process_submission env row_data row_number st)
              = effects st @ Enter_process_submission row_number # evs
          \<and> Print (''Content prepared for Google Docs: '' @ title data) \<in> set evs
          \<and> posted_contents evs = [notification_content (row_number - 1) data tq]
          \<and> structured_data (process_submission env row_data row_number st)
              = structured_data st @ [entry])
       \<and> (\<exists>data discord_sent entry evs.
            fst (app_extract_submission_data row_data sv) = Some data
          \<and> fst (app_process_submission env data entry_number sv)
              = Processed entry_number True discord_sent entry
          \<and> svc_effects (snd (app_process_submission env data entry_number sv))
              = svc_effects sv @ Enter_process_submission entry_number # evs
          \<and> LogInfo (''Formatted content for Google Docs: '' @ title data) \<in> set evs
          \<and> ((\<exists>tq. posted_contents evs = [notification_content entry_number data tq])
             \<or> (discord_sent = False \<and> posted_contents evs = []
                \<and> LogWarning ''Discord webhook URL not configured'' \<in> set evs
                \<and> (svc_discord_webhook_url sv = None \<or> svc_discord_webhook_url sv = Some [])))
          \<and> svc_structured_data (snd (app_process_submission env data entry_number sv))
              = svc_structured_data sv @ [entry])"
proof -
  have a: "\<exists>data evs tq entry.
            fst (extract_submission_data row_data st) = Some data
          \<and> effects (process_submission env row_data row_number st)
              = effects st @ Enter_process_submission row_number # evs
          \<and> Print (''Content prepared for Google Docs: '' @ title data) \<in> set evs
          \<and> posted_contents evs = [notification_content (row_number - 1) data tq]
          \<and> structured_data (process_submission env row_data row_number st)
              = structured_data st @ [entry]"
    using process_submission_long[OF assms, of st env row_number] by blast
  obtain data where d: "fst (app_extract_submission_data row_data sv) = Some data"
    using assms by (simp add: app_extract_submission_data_def extract_try_long)
  have b: "\<exists>data discord_sent entry evs.
            fst (app_extract_submission_data row_data sv) = Some data
          \<and> fst (app_process_submission env data entry_number sv)
              = Processed entry_number True discord_sent entry
          \<and> svc_effects (snd (app_process_submission env data entry_number sv))
              = svc_effects sv @ Enter_process_submission entry_number # evs
          \<and> LogInfo (''Formatted content for Google Docs: '' @ title data) \<in> set evs
          \<and> ((\<exists>tq. posted_contents evs = [notification_content entry_number data tq])
             \<or> (discord_sent = False \<and> posted_contents evs = []
                \<and> LogWarning ''Discord webhook URL not configured'' \<in> set evs
                \<and> (svc_discord_webhook_url sv = None \<or> svc_discord_webhook_url sv = Some [])))
          \<and> svc_structured_data (snd (app_process_submission env data entry_number sv))
              = svc_structured_data sv @ [entry]"
    using d app_process_submission_result[of env data entry_number sv] by blast
  from a b show ?thesis by blast
qed

theorem deliveries_independent_witness:
  "length (structured_data (process_submission env_down rowA 2 (init_system ''u''))) = 1
   \<and> length (posted_contents (effects (process_submission env_down rowA 2 (init_system ''u'')))) = 1
   \<and> entered_rows (effects (process_submission env_down rowA 2 (init_system ''u''))) = [2]"
proof -
  have l: "11 \<le> length rowA" by (simp add: rowA_def)
  from deliveries_independent[OF l, of "init_system ''u''" env_down 2]
  obtain data evs tq entry where
      e: "effects (process_submission env_down rowA 2 (init_system ''u''))
              = effects (init_system ''u'') @ Enter_process_submission 2 # evs"
      and p: "posted_contents evs = [notification_content (2 - 1) data tq]"
      and s: "structured_data (process_submission env_down rowA 2 (init_system ''u''))
              = structured_data (init_system ''u'') @ [entry]"
    by blast
  have n: "entered_rows (effects (process_submission env_down rowA 2 (init_system ''u''))) = [2]"
    by code_simp
  show ?thesis
    using e p s n by (simp add: init_system_def)
qed

section \<open>Sequence numbers\<close>

text \<open>
  C1 fails in process_submission.py: for the first data row of a sheet (row number 2) the
  title line of the document entry and of the notification begins with 1, the row number
  less one, while the id of the record is \<open>entry_2\<close>, made from the row number. In app.py
  the same \<open>entry_number\<close> reaches the three steps: entry number 1 gives the title line
  \<open>1. ...\<close> and the id \<open>entry_1\<close>.
\<close>

theorem display_number_and_id:
  "map first_line (posted_contents (effects (process_submission env_ok rowA 2 (init_system ''u''))))
     = [''1. Title1 (Alice)'']
   \<and> fc_title (add_to_docs_formatted_content env_ok (2 - 1) dataA (init_system ''u''))
     = ''1. Title1 (Alice)''
   \<and> map entry_id (structured_data (process_submission env_ok rowA 2 (init_system ''u'')))
     = [''entry_2'']
   \<and> map first_line (posted_contents (svc_effects (snd
        (app_process_submission env_ok dataA 1 (init_service (Some ''u''))))))
     = [''1. Title1 (Alice)'']
   \<and> map entry_id (svc_structured_data (snd
        (app_process_submission env_ok dataA 1 (init_service (Some ''u'')))))
     = [''entry_1'']"
  by code_simp

section \<open>Formatting\<close>

lemma translate_text_requests:
  "translate_requests (effects (snd (translate_text env text s t st))) =
     translate_requests (effects st) @ (if text = [] \<or> strip_is_empty text then [] else [text])"
  by (simp add: translate_text_def Let_def emit_def translate_requests_append split: sum.splits)

lemma add_to_docs_requests:
  "translate_requests (effects (add_to_docs env n d st)) =
     translate_requests (effects st) @ (if quote d = [] \<or> strip_is_empty (quote d) then [] else [quote d])"
  by (simp add: add_to_docs_def Let_def emit_def split_beta translate_requests_append
      translate_text_requests)

lemma send_discord_notification_requests:
  "translate_requests (effects (send_discord_notification env n d st)) =
     translate_requests (effects st) @ (if quote d = [] \<or> strip_is_empty (quote d) then [] else [quote d])"
  by (simp add: send_discord_notification_def Let_def emit_def split_beta translate_requests_append
      translate_text_requests split: post_result.splits)

lemma send_discord_notification_posted:
  "posted_contents (effects (send_discord_notification env n d st)) =
     posted_contents (effects st)
       @ [notification_content n d (fst (translate_text env (quote d) ''ja'' ''en'' st))]"
proof -
  obtain evs where "effects (send_discord_notification env n d st) = effects st @ evs"
     "posted_contents evs = [notification_content n d (fst (translate_text env (quote d) ''ja'' ''en'' st))]"
    using send_discord_notification_effects by blast
  then show ?thesis by (simp add: posted_contents_append)
qed

text \<open>
  C3, as the code has it. The document entry and the notification text are fixed functions
  of the entry number, the submission and the translated quote, so two calls in which these
  are the same produce the same texts. The translated quote is not an input: \<open>add_to_docs\<close>
  and \<open>send_discord_notification\<close> each obtain it by calling \<open>translate_text\<close> on the
  quote (one request to the service unless the quote is empty or blank), and
  \<open>send_discord_notification\<close> posts its text to the webhook.
\<close>

theorem formatting_determined:
  "add_to_docs_formatted_content env entry_number data st =
     docs_formatted_content entry_number data (fst (translate_text env (quote data) ''ja'' ''en'' st))
   \<and> posted_contents (effects (send_discord_notification env entry_number data st)) =
       posted_contents (effects st)
         @ [notification_content entry_number data (fst (translate_text env (quote data) ''ja'' ''en'' st))]
   \<and> translate_requests (effects (add_to_docs env entry_number data st)) =
       translate_requests (effects st)
         @ (if quote data = [] \<or> strip_is_empty (quote data) then [] else [quote data])
   \<and> translate_requests (effects (send_discord_notification env entry_number data st)) =
       translate_requests (effects st)
         @ (if quote data = [] \<or> strip_is_empty (quote data) then [] else [quote data])
   \<and> (fst (translate_text env (quote data) ''ja'' ''en'' st)
        = fst (translate_text env' (quote data) ''ja'' ''en'' st') \<longrightarrow>
          add_to_docs_formatted_content env entry_number data st
            = add_to_docs_formatted_content env' entry_number data st'
        \<and> last (posted_contents (effects (send_discord_notification env entry_number data st)))
            = last (posted_contents (effects (send_discord_notification env' entry_number data st'))))"
  by (simp add: add_to_docs_formatted_content_def send_discord_notification_posted
      add_to_docs_requests send_discord_notification_requests)

theorem formatting_determined_witness:
  "add_to_docs_formatted_content env_ok 1 dataA (init_system ''u'')
     = add_to_docs_formatted_content env_ok 1 dataA (init_system ''v'')
   \<and> last (posted_contents (effects (send_discord_notification env_ok 1 dataA (init_system ''u''))))
     = last (posted_contents (effects (send_discord_notification env_ok 1 dataA (init_system ''v''))))
   \<and> translate_requests (effects (send_discord_notification env_ok 1 dataA (init_system ''u'')))
     = [''Quote'']"
proof -
  have t: "fst (translate_text env_ok (quote dataA) ''ja'' ''en'' (init_system ''u''))
         = fst (translate_text env_ok (quote dataA) ''ja'' ''en'' (init_system ''v''))"
    by code_simp
  have q: "quote dataA = ''Quote''" "\<not> strip_is_empty ''Quote''" "effects (init_system ''u'') = []"
    by (simp_all add: dataA_def init_system_def space1_def space2_def space3_def)
  note th = formatting_determined[of env_ok 1 dataA "init_system ''u''" env_ok "init_system ''v''"]
  from th t have a:
    "add_to_docs_formatted_content env_ok 1 dataA (init_system ''u'')
       = add_to_docs_formatted_content env_ok 1 dataA (init_system ''v'')
     \<and> last (posted_contents (effects (send_discord_notification env_ok 1 dataA (init_system ''u''))))
       = last (posted_contents (effects (send_discord_notification env_ok 1 dataA (init_system ''v''))))"
    by blast
  from th have "translate_requests (effects (send_discord_notification env_ok 1 dataA (init_system ''u''))) =
       translate_requests (effects (init_system ''u''))
         @ (if quote dataA = [] \<or> strip_is_empty (quote dataA) then [] else [quote dataA])"
    by blast
  then have b: "translate_requests (effects (send_discord_notification env_ok 1 dataA (init_system ''u'')))
     = [''Quote'']"
    using q by simp
  from a b show ?thesis by blast
qed

text \<open>
  C3 as stated fails: with the same entry number and submission, the two operations produce
  different texts in a world where the translation service answers and in one where it
  raises; each sends a translation request, and the notification operation makes a POST.
\<close>

theorem formatting_translates_and_posts:
  "posted_contents (effects (send_discord_notification env_ok 1 dataA (init_system ''u'')))
     \<noteq> posted_contents (effects (send_discord_notification env_down 1 dataA (init_system ''u'')))
   \<and> add_to_docs_formatted_content env_ok 1 dataA (init_system ''u'')
     \<noteq> add_to_docs_formatted_content env_down 1 dataA (init_system ''u'')
   \<and> translate_requests (effects (add_to_docs env_ok 1 dataA (init_system ''u''))) = [''Quote'']
   \<and> translate_requests (effects (send_discord_notification env_ok 1 dataA (init_system ''u'')))
       = [''Quote'']
   \<and> length (posted_contents (effects (send_discord_notification env_ok 1 dataA (init_system ''u''))))
       = 1"
proof -
  have t: "fst (translate_text env_ok (quote dataA) ''ja'' ''en'' (init_system ''u'')) = ''EN''"
    "fst (translate_text env_down (quote dataA) ''ja'' ''en'' (init_system ''u'')) = ''Quote''"
    by code_simp+
  have n: "notification_content 1 dataA ''EN'' \<noteq> notification_content 1 dataA ''Quote''"
    by (simp add: notification_content_def Let_def)
  have d: "fc_table_content (docs_formatted_content 1 dataA ''EN'')
             \<noteq> fc_table_content (docs_formatted_content 1 dataA ''Quote'')"
    by (simp add: docs_formatted_content_def Let_def)
  then have d': "docs_formatted_content 1 dataA ''EN'' \<noteq> docs_formatted_content 1 dataA ''Quote''"
    by metis
  have q: "quote dataA = ''Quote''" "\<not> strip_is_empty ''Quote''" "effects (init_system ''u'') = []"
    by (simp_all add: dataA_def init_system_def space1_def space2_def space3_def)
  show ?thesis
    using t n d' q
    by (simp add: add_to_docs_formatted_content_def send_discord_notification_posted
      add_to_docs_requests send_discord_notification_requests)
qed

end
